theory Spec2Isabelle
  imports Complex_Main "HOL-Library.Word" "HOL-Library.Signed_Division" "HOL-Library.Log_Nat"
begin

unbundle bit_operations_syntax

section \<open>The OpenGL renderer of the PBR demo (src/opengl.cpp)\<close>

text \<open>
  The renderer issues commands to two external libraries, OpenGL and GLFW. Their
  implementation is not part of the program, so the embedding records every command in a
  log, in program order, and takes every answer of the libraries from a parameter
  (\<open>backend\<close>). Each function of \<open>Renderer\<close> becomes a function from the state of the
  backend to its result and the new state. An exception, a failed assertion and an
  operation whose result C++ leaves undefined are values of the type \<open>error\<close>.
\<close>

subsection \<open>Scalar types and the constants of the library headers\<close>

text \<open>
  A C++ \<open>int\<close> is a 32-bit word read in two's complement (\<open>sint\<close>); its comparisons are the
  signed ones. Object names (\<open>GLuint\<close>) and enumerators (\<open>GLenum\<close>) are natural numbers: the
  program never calculates with them. A \<open>float\<close> is the real number it stands for; the
  conversions and operations on \<open>float\<close> round their exact result to single precision, as
  defined below.
\<close>

type_synonym cint = "32 word"
type_synonym GLuint = nat
type_synonym GLenum = nat
type_synonym GLfloat = real

named_theorems gl_const \<open>values of the enumerators of the OpenGL and GLFW headers\<close>

definition GL_NONE :: GLenum where [gl_const]: "GL_NONE = 0"
definition GL_TRUE :: cint where [gl_const]: "GL_TRUE = 1"
definition GL_TRIANGLES :: GLenum where [gl_const]: "GL_TRIANGLES = 4"
definition GL_TRIANGLE_STRIP :: GLenum where [gl_const]: "GL_TRIANGLE_STRIP = 5"
definition GL_DEPTH_BUFFER_BIT :: GLenum where [gl_const]: "GL_DEPTH_BUFFER_BIT = 256"
definition GL_STENCIL_BUFFER_BIT :: GLenum where [gl_const]: "GL_STENCIL_BUFFER_BIT = 1024"
definition GL_COLOR_BUFFER_BIT :: GLenum where [gl_const]: "GL_COLOR_BUFFER_BIT = 16384"
definition GL_DEPTH_TEST :: GLenum where [gl_const]: "GL_DEPTH_TEST = 2929"
definition GL_TEXTURE_2D :: GLenum where [gl_const]: "GL_TEXTURE_2D = 3553"
definition GL_UNSIGNED_INT :: GLenum where [gl_const]: "GL_UNSIGNED_INT = 5125"
definition GL_NEAREST :: GLenum where [gl_const]: "GL_NEAREST = 9728"
definition GL_LINEAR :: GLenum where [gl_const]: "GL_LINEAR = 9729"
definition GL_LINEAR_MIPMAP_LINEAR :: GLenum where [gl_const]: "GL_LINEAR_MIPMAP_LINEAR = 9987"
definition GL_TEXTURE_MAG_FILTER :: GLenum where [gl_const]: "GL_TEXTURE_MAG_FILTER = 10240"
definition GL_TEXTURE_MIN_FILTER :: GLenum where [gl_const]: "GL_TEXTURE_MIN_FILTER = 10241"
definition GL_DEPTH_STENCIL_ATTACHMENT :: GLenum where [gl_const]: "GL_DEPTH_STENCIL_ATTACHMENT = 33306"
definition GL_DEBUG_OUTPUT_SYNCHRONOUS :: GLenum where [gl_const]: "GL_DEBUG_OUTPUT_SYNCHRONOUS = 33346"
definition GL_TEXTURE_CUBE_MAP :: GLenum where [gl_const]: "GL_TEXTURE_CUBE_MAP = 34067"
definition GL_RGBA16F :: GLenum where [gl_const]: "GL_RGBA16F = 34842"
definition GL_WRITE_ONLY :: GLenum where [gl_const]: "GL_WRITE_ONLY = 35001"
definition GL_DEPTH24_STENCIL8 :: GLenum where [gl_const]: "GL_DEPTH24_STENCIL8 = 35056"
definition GL_COMPILE_STATUS :: GLenum where [gl_const]: "GL_COMPILE_STATUS = 35713"
definition GL_LINK_STATUS :: GLenum where [gl_const]: "GL_LINK_STATUS = 35714"
definition GL_VALIDATE_STATUS :: GLenum where [gl_const]: "GL_VALIDATE_STATUS = 35715"
definition GL_INFO_LOG_LENGTH :: GLenum where [gl_const]: "GL_INFO_LOG_LENGTH = 35716"
definition GL_DRAW_FRAMEBUFFER :: GLenum where [gl_const]: "GL_DRAW_FRAMEBUFFER = 36009"
definition GL_FRAMEBUFFER_COMPLETE :: GLenum where [gl_const]: "GL_FRAMEBUFFER_COMPLETE = 36053"
definition GL_COLOR_ATTACHMENT0 :: GLenum where [gl_const]: "GL_COLOR_ATTACHMENT0 = 36064"
definition GL_FRAMEBUFFER :: GLenum where [gl_const]: "GL_FRAMEBUFFER = 36160"
definition GL_RENDERBUFFER :: GLenum where [gl_const]: "GL_RENDERBUFFER = 36161"
definition GL_COMPUTE_SHADER :: GLenum where [gl_const]: "GL_COMPUTE_SHADER = 37305"

definition GLFW_DEPTH_BITS :: nat where [gl_const]: "GLFW_DEPTH_BITS = 135173"
definition GLFW_STENCIL_BITS :: nat where [gl_const]: "GLFW_STENCIL_BITS = 135174"
definition GLFW_SAMPLES :: nat where [gl_const]: "GLFW_SAMPLES = 135181"
definition GLFW_CLIENT_API :: nat where [gl_const]: "GLFW_CLIENT_API = 139265"
definition GLFW_CONTEXT_VERSION_MAJOR :: nat where [gl_const]: "GLFW_CONTEXT_VERSION_MAJOR = 139266"
definition GLFW_CONTEXT_VERSION_MINOR :: nat where [gl_const]: "GLFW_CONTEXT_VERSION_MINOR = 139267"
definition GLFW_OPENGL_DEBUG_CONTEXT :: nat where [gl_const]: "GLFW_OPENGL_DEBUG_CONTEXT = 139271"
definition GLFW_OPENGL_PROFILE :: nat where [gl_const]: "GLFW_OPENGL_PROFILE = 139272"
definition GLFW_OPENGL_API :: nat where [gl_const]: "GLFW_OPENGL_API = 196609"
definition GLFW_OPENGL_CORE_PROFILE :: nat where [gl_const]: "GLFW_OPENGL_CORE_PROFILE = 204801"

text \<open>The uniform locations of the enumeration \<open>UniformLocations\<close>.\<close>

definition ViewProjectionMatrix :: GLuint where "ViewProjectionMatrix = 0"
definition EyePosition :: GLuint where "EyePosition = 1"
definition SpecularMapRoughness :: GLuint where "SpecularMapRoughness = 0"

subsection \<open>The records of the renderer\<close>

text \<open>
  Modelled from the spec: the declarations of \<open>Texture\<close>, \<open>FrameBuffer\<close>, \<open>VertexBuffer\<close>
  and \<open>ViewSettings\<close>, which are in headers outside the source file. The fields are the
  ones the data model of the spec lists and the source file reads and writes; the sizes
  are \<open>int\<close>, as the parameters they are assigned from, and the identifiers are \<open>GLuint\<close>.
\<close>

record Texture =
  tex_id :: GLuint
  tex_width :: cint
  tex_height :: cint
  tex_levels :: cint

record FrameBuffer =
  fb_id :: GLuint
  fb_colorTarget :: GLuint
  fb_depthStencilTarget :: GLuint
  fb_width :: cint
  fb_height :: cint
  fb_samples :: cint

record VertexBuffer =
  vb_vbo :: GLuint
  vb_ibo :: GLuint
  vb_vao :: GLuint
  vb_numElements :: GLuint

record ViewSettings =
  pitch :: GLfloat
  yaw :: GLfloat
  distance :: GLfloat
  fov :: GLfloat

text \<open>
  Modelled from the spec: the constructors of the records, which are in the same headers.
  A record that has just been declared holds no backend object, so its identifiers are
  empty (zero); \<open>resolveFramebuffer\<close> and the delete operations test them against zero.
  The sizes are set by every function that declares a record.
\<close>

definition new_Texture :: Texture where
  "new_Texture = \<lparr>tex_id = 0, tex_width = 0, tex_height = 0, tex_levels = 0\<rparr>"

definition new_VertexBuffer :: VertexBuffer where
  "new_VertexBuffer = \<lparr>vb_vbo = 0, vb_ibo = 0, vb_vao = 0, vb_numElements = 0\<rparr>"

definition new_FrameBuffer :: FrameBuffer where
  "new_FrameBuffer = \<lparr>fb_id = 0, fb_colorTarget = 0, fb_depthStencilTarget = 0,
     fb_width = 0, fb_height = 0, fb_samples = 0\<rparr>"

text \<open>\<open>std::memset(&x, 0, sizeof x)\<close> sets every byte, hence every field, to zero.\<close>

definition memset_Texture :: Texture where
  "memset_Texture = \<lparr>tex_id = 0, tex_width = 0, tex_height = 0, tex_levels = 0\<rparr>"

definition memset_FrameBuffer :: FrameBuffer where
  "memset_FrameBuffer = \<lparr>fb_id = 0, fb_colorTarget = 0, fb_depthStencilTarget = 0,
     fb_width = 0, fb_height = 0, fb_samples = 0\<rparr>"

definition memset_VertexBuffer :: VertexBuffer where
  "memset_VertexBuffer = \<lparr>vb_vbo = 0, vb_ibo = 0, vb_vao = 0, vb_numElements = 0\<rparr>"

subsection \<open>The commands sent to the backend\<close>

text \<open>
  The payload of a uniform is computed by the glm library from the view settings and the
  size of the main framebuffer. The library is outside the program: the payload is kept
  as the expression the source writes, and what the library does with its arguments is not
  modelled.
\<close>

datatype uniform_value =
    Proj_times_Rotation ViewSettings cint cint
  | Proj_times_View ViewSettings cint cint
  | Eye_Position ViewSettings

datatype gl_arg =
    U nat
  | I cint
  | F GLfloat
  | S string
  | B bool
  | UL "nat list"
  | IL "cint list"
  | V uniform_value

datatype gl_call = Call string "gl_arg list"

named_theorems gl_call \<open>the commands of the backend, as log entries\<close>

definition glfwWindowHint :: "nat \<Rightarrow> nat \<Rightarrow> gl_call" where [gl_call]:
  "glfwWindowHint a b = Call ''glfwWindowHint'' [U a, U b]"

definition glfwCreateWindow :: "cint \<Rightarrow> cint \<Rightarrow> string \<Rightarrow> gl_call" where [gl_call]:
  "glfwCreateWindow a b c = Call ''glfwCreateWindow'' [I a, I b, S c]"

definition glfwMakeContextCurrent :: "nat \<Rightarrow> gl_call" where [gl_call]:
  "glfwMakeContextCurrent a = Call ''glfwMakeContextCurrent'' [U a]"

definition glfwSwapInterval :: "cint \<Rightarrow> gl_call" where [gl_call]:
  "glfwSwapInterval a = Call ''glfwSwapInterval'' [I a]"

definition gladLoadGLLoader :: "gl_call" where [gl_call]:
  "gladLoadGLLoader = Call ''gladLoadGLLoader'' []"

definition glfwSwapBuffers :: "nat \<Rightarrow> gl_call" where [gl_call]:
  "glfwSwapBuffers a = Call ''glfwSwapBuffers'' [U a]"

definition glDebugMessageCallback :: "gl_call" where [gl_call]:
  "glDebugMessageCallback = Call ''glDebugMessageCallback'' []"

definition glEnable :: "GLenum \<Rightarrow> gl_call" where [gl_call]:
  "glEnable a = Call ''glEnable'' [U a]"

definition glDisable :: "GLenum \<Rightarrow> gl_call" where [gl_call]:
  "glDisable a = Call ''glDisable'' [U a]"

definition glCreateTextures :: "GLenum \<Rightarrow> GLuint \<Rightarrow> gl_call" where [gl_call]:
  "glCreateTextures a b = Call ''glCreateTextures'' [U a, U b]"

definition glTextureStorage2D :: "GLuint \<Rightarrow> cint \<Rightarrow> GLenum \<Rightarrow> cint \<Rightarrow> cint \<Rightarrow> gl_call" where [gl_call]:
  "glTextureStorage2D a b c d e = Call ''glTextureStorage2D'' [U a, I b, U c, I d, I e]"

definition glTextureParameteri :: "GLuint \<Rightarrow> GLenum \<Rightarrow> GLenum \<Rightarrow> gl_call" where [gl_call]:
  "glTextureParameteri a b c = Call ''glTextureParameteri'' [U a, U b, U c]"

definition glDeleteTextures :: "GLuint \<Rightarrow> gl_call" where [gl_call]:
  "glDeleteTextures a = Call ''glDeleteTextures'' [U a]"

definition glCreateFramebuffers :: "GLuint \<Rightarrow> gl_call" where [gl_call]:
  "glCreateFramebuffers a = Call ''glCreateFramebuffers'' [U a]"

definition glCreateRenderbuffers :: "GLuint \<Rightarrow> gl_call" where [gl_call]:
  "glCreateRenderbuffers a = Call ''glCreateRenderbuffers'' [U a]"

definition glNamedRenderbufferStorageMultisample :: "GLuint \<Rightarrow> cint \<Rightarrow> GLenum \<Rightarrow> cint \<Rightarrow> cint \<Rightarrow> gl_call" where [gl_call]:
  "glNamedRenderbufferStorageMultisample a b c d e = Call ''glNamedRenderbufferStorageMultisample'' [U a, I b, U c, I d, I e]"

definition glNamedRenderbufferStorage :: "GLuint \<Rightarrow> GLenum \<Rightarrow> cint \<Rightarrow> cint \<Rightarrow> gl_call" where [gl_call]:
  "glNamedRenderbufferStorage a b c d = Call ''glNamedRenderbufferStorage'' [U a, U b, I c, I d]"

definition glNamedFramebufferRenderbuffer :: "GLuint \<Rightarrow> GLenum \<Rightarrow> GLenum \<Rightarrow> GLuint \<Rightarrow> gl_call" where [gl_call]:
  "glNamedFramebufferRenderbuffer a b c d = Call ''glNamedFramebufferRenderbuffer'' [U a, U b, U c, U d]"

definition glNamedFramebufferTexture :: "GLuint \<Rightarrow> GLenum \<Rightarrow> GLuint \<Rightarrow> cint \<Rightarrow> gl_call" where [gl_call]:
  "glNamedFramebufferTexture a b c d = Call ''glNamedFramebufferTexture'' [U a, U b, U c, I d]"

definition glCheckNamedFramebufferStatus :: "GLuint \<Rightarrow> GLenum \<Rightarrow> gl_call" where [gl_call]:
  "glCheckNamedFramebufferStatus a b = Call ''glCheckNamedFramebufferStatus'' [U a, U b]"

definition glBlitNamedFramebuffer :: "GLuint \<Rightarrow> GLuint \<Rightarrow> cint list \<Rightarrow> cint list \<Rightarrow> GLenum \<Rightarrow> GLenum \<Rightarrow> gl_call" where [gl_call]:
  "glBlitNamedFramebuffer a b c d e f = Call ''glBlitNamedFramebuffer'' [U a, U b, IL c, IL d, U e, U f]"

definition glInvalidateNamedFramebufferData :: "GLuint \<Rightarrow> GLenum list \<Rightarrow> gl_call" where [gl_call]:
  "glInvalidateNamedFramebufferData a b = Call ''glInvalidateNamedFramebufferData'' [U a, UL b]"

definition glDeleteFramebuffers :: "GLuint \<Rightarrow> gl_call" where [gl_call]:
  "glDeleteFramebuffers a = Call ''glDeleteFramebuffers'' [U a]"

definition glDeleteRenderbuffers :: "GLuint \<Rightarrow> gl_call" where [gl_call]:
  "glDeleteRenderbuffers a = Call ''glDeleteRenderbuffers'' [U a]"

definition glDeleteVertexArrays :: "GLuint \<Rightarrow> gl_call" where [gl_call]:
  "glDeleteVertexArrays a = Call ''glDeleteVertexArrays'' [U a]"

definition glDeleteBuffers :: "GLuint \<Rightarrow> gl_call" where [gl_call]:
  "glDeleteBuffers a = Call ''glDeleteBuffers'' [U a]"

definition File_readText :: "string \<Rightarrow> gl_call" where [gl_call]:
  "File_readText a = Call ''File_readText'' [S a]"

definition printf :: "string \<Rightarrow> gl_call" where [gl_call]:
  "printf a = Call ''printf'' [S a]"

definition glCreateShader :: "GLenum \<Rightarrow> GLuint \<Rightarrow> gl_call" where [gl_call]:
  "glCreateShader a b = Call ''glCreateShader'' [U a, U b]"

definition glShaderSource :: "GLuint \<Rightarrow> string \<Rightarrow> gl_call" where [gl_call]:
  "glShaderSource a b = Call ''glShaderSource'' [U a, S b]"

definition glCompileShader :: "GLuint \<Rightarrow> gl_call" where [gl_call]:
  "glCompileShader a = Call ''glCompileShader'' [U a]"

definition glGetShaderiv :: "GLuint \<Rightarrow> GLenum \<Rightarrow> gl_call" where [gl_call]:
  "glGetShaderiv a b = Call ''glGetShaderiv'' [U a, U b]"

definition glGetShaderInfoLog :: "GLuint \<Rightarrow> cint \<Rightarrow> gl_call" where [gl_call]:
  "glGetShaderInfoLog a b = Call ''glGetShaderInfoLog'' [U a, I b]"

definition glCreateProgram :: "GLuint \<Rightarrow> gl_call" where [gl_call]:
  "glCreateProgram a = Call ''glCreateProgram'' [U a]"

definition glAttachShader :: "GLuint \<Rightarrow> GLuint \<Rightarrow> gl_call" where [gl_call]:
  "glAttachShader a b = Call ''glAttachShader'' [U a, U b]"

definition glLinkProgram :: "GLuint \<Rightarrow> gl_call" where [gl_call]:
  "glLinkProgram a = Call ''glLinkProgram'' [U a]"

definition glDetachShader :: "GLuint \<Rightarrow> GLuint \<Rightarrow> gl_call" where [gl_call]:
  "glDetachShader a b = Call ''glDetachShader'' [U a, U b]"

definition glDeleteShader :: "GLuint \<Rightarrow> gl_call" where [gl_call]:
  "glDeleteShader a = Call ''glDeleteShader'' [U a]"

definition glGetProgramiv :: "GLuint \<Rightarrow> GLenum \<Rightarrow> gl_call" where [gl_call]:
  "glGetProgramiv a b = Call ''glGetProgramiv'' [U a, U b]"

definition glValidateProgram :: "GLuint \<Rightarrow> gl_call" where [gl_call]:
  "glValidateProgram a = Call ''glValidateProgram'' [U a]"

definition glGetProgramInfoLog :: "GLuint \<Rightarrow> cint \<Rightarrow> gl_call" where [gl_call]:
  "glGetProgramInfoLog a b = Call ''glGetProgramInfoLog'' [U a, I b]"

definition glUseProgram :: "GLuint \<Rightarrow> gl_call" where [gl_call]:
  "glUseProgram a = Call ''glUseProgram'' [U a]"

definition glDeleteProgram :: "GLuint \<Rightarrow> gl_call" where [gl_call]:
  "glDeleteProgram a = Call ''glDeleteProgram'' [U a]"

definition glBindTextureUnit :: "GLuint \<Rightarrow> GLuint \<Rightarrow> gl_call" where [gl_call]:
  "glBindTextureUnit a b = Call ''glBindTextureUnit'' [U a, U b]"

definition glBindImageTexture :: "GLuint \<Rightarrow> GLuint \<Rightarrow> cint \<Rightarrow> bool \<Rightarrow> cint \<Rightarrow> GLenum \<Rightarrow> GLenum \<Rightarrow> gl_call" where [gl_call]:
  "glBindImageTexture a b c d e f g = Call ''glBindImageTexture'' [U a, U b, I c, B d, I e, U f, U g]"

definition glProgramUniform1f :: "GLuint \<Rightarrow> GLuint \<Rightarrow> GLfloat \<Rightarrow> gl_call" where [gl_call]:
  "glProgramUniform1f a b c = Call ''glProgramUniform1f'' [U a, U b, F c]"

definition glProgramUniformMatrix4fv :: "GLuint \<Rightarrow> GLuint \<Rightarrow> uniform_value \<Rightarrow> gl_call" where [gl_call]:
  "glProgramUniformMatrix4fv a b c = Call ''glProgramUniformMatrix4fv'' [U a, U b, V c]"

definition glProgramUniform3fv :: "GLuint \<Rightarrow> GLuint \<Rightarrow> uniform_value \<Rightarrow> gl_call" where [gl_call]:
  "glProgramUniform3fv a b c = Call ''glProgramUniform3fv'' [U a, U b, V c]"

definition glDispatchCompute :: "GLuint \<Rightarrow> GLuint \<Rightarrow> GLuint \<Rightarrow> gl_call" where [gl_call]:
  "glDispatchCompute a b c = Call ''glDispatchCompute'' [U a, U b, U c]"

definition glBindFramebuffer :: "GLenum \<Rightarrow> GLuint \<Rightarrow> gl_call" where [gl_call]:
  "glBindFramebuffer a b = Call ''glBindFramebuffer'' [U a, U b]"

definition glClear :: "GLenum \<Rightarrow> gl_call" where [gl_call]:
  "glClear a = Call ''glClear'' [U a]"

definition glBindVertexArray :: "GLuint \<Rightarrow> gl_call" where [gl_call]:
  "glBindVertexArray a = Call ''glBindVertexArray'' [U a]"

definition glDrawElements :: "GLenum \<Rightarrow> GLuint \<Rightarrow> GLenum \<Rightarrow> nat \<Rightarrow> gl_call" where [gl_call]:
  "glDrawElements a b c d = Call ''glDrawElements'' [U a, U b, U c, U d]"

definition glDrawArrays :: "GLenum \<Rightarrow> cint \<Rightarrow> cint \<Rightarrow> gl_call" where [gl_call]:
  "glDrawArrays a b c = Call ''glDrawArrays'' [U a, I b, I c]"

text \<open>
  The state of the backend: the commands received so far, and for each kind of object how
  many names have been handed out. A creation command returns the next name of its kind,
  so a new name is never zero and never one that was returned before. Shaders and programs
  share their names, as in OpenGL.
\<close>

record gl_state =
  calls :: "gl_call list"
  texture_names :: nat
  renderbuffer_names :: nat
  framebuffer_names :: nat
  program_names :: nat

definition gl_init :: gl_state where
  "gl_init = \<lparr>calls = [], texture_names = 0, renderbuffer_names = 0,
     framebuffer_names = 0, program_names = 0\<rparr>"

definition gl :: "gl_call \<Rightarrow> gl_state \<Rightarrow> gl_state" where
  "gl c s = s\<lparr>calls := calls s @ [c]\<rparr>"

definition new_texture :: "GLenum \<Rightarrow> gl_state \<Rightarrow> GLuint \<times> gl_state" where
  "new_texture target s =
    (let n = Suc (texture_names s) in (n, gl (glCreateTextures target n) (s\<lparr>texture_names := n\<rparr>)))"

definition new_renderbuffer :: "gl_state \<Rightarrow> GLuint \<times> gl_state" where
  "new_renderbuffer s =
    (let n = Suc (renderbuffer_names s)
     in (n, gl (glCreateRenderbuffers n) (s\<lparr>renderbuffer_names := n\<rparr>)))"

definition new_framebuffer :: "gl_state \<Rightarrow> GLuint \<times> gl_state" where
  "new_framebuffer s =
    (let n = Suc (framebuffer_names s)
     in (n, gl (glCreateFramebuffers n) (s\<lparr>framebuffer_names := n\<rparr>)))"

definition new_shader :: "GLenum \<Rightarrow> gl_state \<Rightarrow> GLuint \<times> gl_state" where
  "new_shader kind s =
    (let n = Suc (program_names s) in (n, gl (glCreateShader kind n) (s\<lparr>program_names := n\<rparr>)))"

definition new_program :: "gl_state \<Rightarrow> GLuint \<times> gl_state" where
  "new_program s =
    (let n = Suc (program_names s) in (n, gl (glCreateProgram n) (s\<lparr>program_names := n\<rparr>)))"

text \<open>
  What the program is told by its environment: the build flag \<open>_DEBUG\<close>, and the answers
  of the libraries, each of which may depend on everything the backend has received so
  far. The window is a number, 0 for the null pointer. The answer to a request for an
  information log is the whole text of the log; how much of it reaches the program depends
  on the buffer the program passes, see \<open>read_info_log\<close>.
\<close>

record backend =
  debug_build :: bool
  glfwCreateWindow_answer :: nat
  gladLoadGLLoader_answer :: bool
  glCheckNamedFramebufferStatus_answer :: "gl_call list \<Rightarrow> GLuint \<Rightarrow> GLenum"
  File_readText_answer :: "string \<Rightarrow> string"
  glGetShaderiv_answer :: "gl_call list \<Rightarrow> GLuint \<Rightarrow> GLenum \<Rightarrow> cint"
  glGetShaderInfoLog_answer :: "gl_call list \<Rightarrow> GLuint \<Rightarrow> string"
  glGetProgramiv_answer :: "gl_call list \<Rightarrow> GLuint \<Rightarrow> GLenum \<Rightarrow> cint"
  glGetProgramInfoLog_answer :: "gl_call list \<Rightarrow> GLuint \<Rightarrow> string"

datatype error =
    runtime_error string
  | bad_array_new_length
  | assertion_failed
  | undefined_shift
  | signed_overflow
  | out_of_bounds_read

text \<open>\<open>std::to_string\<close> of an unsigned number: its decimal digits.\<close>

fun to_string :: "nat \<Rightarrow> string" where
  "to_string n =
    (if n < 10 then [char_of (48 + n)]
     else to_string (n div 10) @ [char_of (48 + n mod 10)])"

declare to_string.simps [simp del]

subsection \<open>Textures\<close>

text \<open>
  The loop \<open>while((width|height) >> texture.levels) ++texture.levels\<close>. The shift of a
  negative number is the arithmetic one. A shift count outside 0..31 has no defined result
  in C++; the loop reaches it exactly when \<open>width|height\<close> is negative.
\<close>

function mip_levels :: "cint \<Rightarrow> cint \<Rightarrow> error + cint" where
  "mip_levels wh levels =
     (if levels <s 0 \<or> 32 \<le>s levels then Inl undefined_shift
      else if signed_drop_bit (unat levels) wh \<noteq> 0 then mip_levels wh (levels + 1)
      else Inr levels)"
  by pat_completeness auto
termination
  by (relation "measure (\<lambda>(wh, levels). nat (32 - sint levels))")
     (auto simp: word_sle_eq word_sless_alt sint_word_ariths signed_take_bit_int_eq_self)

declare mip_levels.simps [simp del]

definition createTexture ::
  "GLenum \<Rightarrow> cint \<Rightarrow> cint \<Rightarrow> GLenum \<Rightarrow> cint \<Rightarrow> gl_state \<Rightarrow> (error + Texture) \<times> gl_state" where
  "createTexture target width height internalformat levels s =
    (let texture = new_Texture\<lparr>tex_width := width, tex_height := height, tex_levels := levels\<rparr>
     in case (if tex_levels texture \<le>s 0 then mip_levels (width OR height) 1
              else Inr (tex_levels texture)) of
          Inl e \<Rightarrow> (Inl e, s)
        | Inr n \<Rightarrow>
            let texture = texture\<lparr>tex_levels := n\<rparr>;
                (name, s) = new_texture target s;
                texture = texture\<lparr>tex_id := name\<rparr>;
                s = gl (glTextureStorage2D (tex_id texture) (tex_levels texture) internalformat
                      width height) s;
                s = gl (glTextureParameteri (tex_id texture) GL_TEXTURE_MIN_FILTER
                      (if 1 <s tex_levels texture then GL_LINEAR_MIPMAP_LINEAR else GL_LINEAR)) s;
                s = gl (glTextureParameteri (tex_id texture) GL_TEXTURE_MAG_FILTER GL_LINEAR) s
            in (Inr texture, s))"

definition deleteTexture :: "Texture \<Rightarrow> gl_state \<Rightarrow> Texture \<times> gl_state" where
  "deleteTexture texture s = (memset_Texture, gl (glDeleteTextures (tex_id texture)) s)"

subsection \<open>Framebuffers\<close>

definition createFrameBuffer ::
  "backend \<Rightarrow> cint \<Rightarrow> cint \<Rightarrow> cint \<Rightarrow> GLenum \<Rightarrow> GLenum \<Rightarrow> gl_state
    \<Rightarrow> (error + FrameBuffer) \<times> gl_state" where
  "createFrameBuffer be width height samples colorFormat depthstencilFormat s =
    (let fb = new_FrameBuffer\<lparr>fb_width := width, fb_height := height, fb_samples := samples\<rparr>;
         (name, s) = new_framebuffer s;
         fb = fb\<lparr>fb_id := name\<rparr>;
         (fb, s) =
           (if colorFormat \<noteq> GL_NONE then
              (if 0 <s samples then
                 (let (name, s) = new_renderbuffer s;
                      fb = fb\<lparr>fb_colorTarget := name\<rparr>;
                      s = gl (glNamedRenderbufferStorageMultisample (fb_colorTarget fb) samples
                            colorFormat width height) s;
                      s = gl (glNamedFramebufferRenderbuffer (fb_id fb) GL_COLOR_ATTACHMENT0
                            GL_RENDERBUFFER (fb_colorTarget fb)) s
                  in (fb, s))
               else
                 (let (name, s) = new_texture GL_TEXTURE_2D s;
                      fb = fb\<lparr>fb_colorTarget := name\<rparr>;
                      s = gl (glTextureStorage2D (fb_colorTarget fb) 1 colorFormat width height) s;
                      s = gl (glNamedFramebufferTexture (fb_id fb) GL_COLOR_ATTACHMENT0
                            (fb_colorTarget fb) 0) s
                  in (fb, s)))
            else (fb, s));
         (fb, s) =
           (if depthstencilFormat \<noteq> GL_NONE then
              (let (name, s) = new_renderbuffer s;
                   fb = fb\<lparr>fb_depthStencilTarget := name\<rparr>;
                   s = (if 0 <s samples then
                          gl (glNamedRenderbufferStorageMultisample (fb_depthStencilTarget fb)
                            samples depthstencilFormat width height) s
                        else
                          gl (glNamedRenderbufferStorage (fb_depthStencilTarget fb)
                            depthstencilFormat width height) s);
                   s = gl (glNamedFramebufferRenderbuffer (fb_id fb) GL_DEPTH_STENCIL_ATTACHMENT
                         GL_RENDERBUFFER (fb_depthStencilTarget fb)) s
               in (fb, s))
            else (fb, s));
         status = glCheckNamedFramebufferStatus_answer be (calls s) (fb_id fb);
         s = gl (glCheckNamedFramebufferStatus (fb_id fb) GL_DRAW_FRAMEBUFFER) s
     in if status \<noteq> GL_FRAMEBUFFER_COMPLETE then
          (Inl (runtime_error (''Framebuffer completeness check failed: '' @ to_string status)), s)
        else (Inr fb, s))"

text \<open>
  Both records are passed by constant reference, so the result is the state of the backend
  alone. The assertion is a branch of its own: when it fails nothing has been sent.
\<close>

definition resolveFramebuffer ::
  "FrameBuffer \<Rightarrow> FrameBuffer \<Rightarrow> gl_state \<Rightarrow> (error + unit) \<times> gl_state" where
  "resolveFramebuffer srcfb dstfb s =
    (if fb_id srcfb = fb_id dstfb then (Inr (), s)
     else
       let attachments = [];
           attachments = (if fb_colorTarget srcfb \<noteq> 0
                          then attachments @ [GL_COLOR_ATTACHMENT0] else attachments);
           attachments = (if fb_depthStencilTarget srcfb \<noteq> 0
                          then attachments @ [GL_DEPTH_STENCIL_ATTACHMENT] else attachments)
       in if \<not> length attachments > 0 then (Inl assertion_failed, s)
          else
            let s = gl (glBlitNamedFramebuffer (fb_id srcfb) (fb_id dstfb)
                      [0, 0, fb_width srcfb - 1, fb_height srcfb - 1]
                      [0, 0, fb_width dstfb - 1, fb_height dstfb - 1]
                      GL_COLOR_BUFFER_BIT GL_NEAREST) s;
                s = gl (glInvalidateNamedFramebufferData (fb_id srcfb) attachments) s
            in (Inr (), s))"

definition deleteFrameBuffer :: "FrameBuffer \<Rightarrow> gl_state \<Rightarrow> FrameBuffer \<times> gl_state" where
  "deleteFrameBuffer fb s =
    (let s = (if fb_id fb \<noteq> 0 then gl (glDeleteFramebuffers (fb_id fb)) s else s);
         s = (if fb_colorTarget fb \<noteq> 0 then
                (if fb_samples fb = 0 then gl (glDeleteTextures (fb_colorTarget fb)) s
                 else gl (glDeleteRenderbuffers (fb_colorTarget fb)) s)
              else s);
         s = (if fb_depthStencilTarget fb \<noteq> 0
              then gl (glDeleteRenderbuffers (fb_depthStencilTarget fb)) s else s)
     in (memset_FrameBuffer, s))"

subsection \<open>Vertex buffers\<close>

definition deleteVertexBuffer :: "VertexBuffer \<Rightarrow> gl_state \<Rightarrow> VertexBuffer \<times> gl_state" where
  "deleteVertexBuffer buffer s =
    (let s = (if vb_vao buffer \<noteq> 0 then gl (glDeleteVertexArrays (vb_vao buffer)) s else s);
         s = (if vb_vbo buffer \<noteq> 0 then gl (glDeleteBuffers (vb_vbo buffer)) s else s);
         s = (if vb_ibo buffer \<noteq> 0 then gl (glDeleteBuffers (vb_ibo buffer)) s else s)
     in (memset_VertexBuffer, s))"

subsection \<open>Shaders and programs\<close>

text \<open>
  Both functions below read the length of the information log, allocate
  \<open>new GLchar[infoLogSize]\<close>, pass the buffer and its size to the backend, and read the buffer
  as a C string. A negative size makes \<open>new\<close> throw \<open>std::bad_array_new_length\<close>. The backend
  writes at most \<open>infoLogSize - 1\<close> characters of the log and a terminating zero, so with size
  0, which is the length the backend reports when there is no log, it writes nothing and
  the program reads past the end of the buffer. Otherwise the program reads the characters
  up to the first zero.
\<close>

definition read_info_log :: "cint \<Rightarrow> string \<Rightarrow> error + string" where
  "read_info_log infoLogSize text =
    (if infoLogSize = 0 then Inl out_of_bounds_read
     else Inr (takeWhile (\<lambda>c. c \<noteq> CHR 0x00) (take (unat infoLogSize - 1) text)))"

definition compileShader ::
  "backend \<Rightarrow> string \<Rightarrow> GLenum \<Rightarrow> gl_state \<Rightarrow> (error + GLuint) \<times> gl_state" where
  "compileShader be filename kind s =
    (let src = File_readText_answer be filename;
         s = gl (File_readText filename) s
     in if src = [] then
          (Inl (runtime_error (''Cannot read shader source file: '' @ filename)), s)
        else
          let s = gl (printf (''Compiling GLSL shader: '' @ filename @ [CHR 0x0A])) s;
              (shader, s) = new_shader kind s;
              s = gl (glShaderSource shader src) s;
              s = gl (glCompileShader shader) s;
              status = glGetShaderiv_answer be (calls s) shader GL_COMPILE_STATUS;
              s = gl (glGetShaderiv shader GL_COMPILE_STATUS) s
          in if status \<noteq> GL_TRUE then
               (let infoLogSize = glGetShaderiv_answer be (calls s) shader GL_INFO_LOG_LENGTH;
                    s = gl (glGetShaderiv shader GL_INFO_LOG_LENGTH) s
                in if infoLogSize <s 0 then (Inl bad_array_new_length, s)
                   else
                     let infoLog = read_info_log infoLogSize
                           (glGetShaderInfoLog_answer be (calls s) shader);
                         s = gl (glGetShaderInfoLog shader infoLogSize) s
                     in case infoLog of
                          Inl e \<Rightarrow> (Inl e, s)
                        | Inr text \<Rightarrow>
                            (Inl (runtime_error (''Shader compilation failed: '' @ filename
                               @ [CHR 0x0A] @ text)), s))
             else (Inr shader, s))"

definition linkProgram ::
  "backend \<Rightarrow> GLuint list \<Rightarrow> gl_state \<Rightarrow> (error + GLuint) \<times> gl_state" where
  "linkProgram be shaders s =
    (let (program, s) = new_program s;
         s = fold (\<lambda>shader. gl (glAttachShader program shader)) shaders s;
         s = gl (glLinkProgram program) s;
         s = fold (\<lambda>shader s. gl (glDeleteShader shader) (gl (glDetachShader program shader) s))
               shaders s;
         status = glGetProgramiv_answer be (calls s) program GL_LINK_STATUS;
         s = gl (glGetProgramiv program GL_LINK_STATUS) s;
         (status, s) =
           (if status = GL_TRUE then
              (let s = gl (glValidateProgram program) s;
                   status = glGetProgramiv_answer be (calls s) program GL_VALIDATE_STATUS;
                   s = gl (glGetProgramiv program GL_VALIDATE_STATUS) s
               in (status, s))
            else (status, s))
     in if status \<noteq> GL_TRUE then
          (let infoLogSize = glGetProgramiv_answer be (calls s) program GL_INFO_LOG_LENGTH;
               s = gl (glGetProgramiv program GL_INFO_LOG_LENGTH) s
           in if infoLogSize <s 0 then (Inl bad_array_new_length, s)
              else
                let infoLog = read_info_log infoLogSize
                      (glGetProgramInfoLog_answer be (calls s) program);
                    s = gl (glGetProgramInfoLog program infoLogSize) s
                in case infoLog of
                     Inl e \<Rightarrow> (Inl e, s)
                   | Inr text \<Rightarrow>
                       (Inl (runtime_error (''Program link failed'' @ [CHR 0x0A] @ text)), s))
        else (Inr program, s))"

subsection \<open>The renderer\<close>

text \<open>
  Modelled from the spec: the declaration of the class \<open>Renderer\<close>, which is in a header
  outside the source file. The members are the ones the functions of the source file name.
\<close>

record Renderer =
  m_framebuffer :: FrameBuffer
  m_resolveFramebuffer :: FrameBuffer
  m_screenQuad :: VertexBuffer
  m_skybox :: VertexBuffer
  m_pbrModel :: VertexBuffer
  m_tonemapProgram :: GLuint
  m_skyboxProgram :: GLuint
  m_pbrProgram :: GLuint
  m_envTexture :: Texture
  m_irmapTexture :: Texture
  m_spmapTexture :: Texture
  m_spBRDF_LUT :: Texture
  m_albedoTexture :: Texture
  m_normalTexture :: Texture
  m_metalnessTexture :: Texture
  m_roughnessTexture :: Texture

definition initialize ::
  "backend \<Rightarrow> Renderer \<Rightarrow> cint \<Rightarrow> cint \<Rightarrow> cint \<Rightarrow> gl_state
    \<Rightarrow> (error + nat \<times> Renderer) \<times> gl_state" where
  "initialize be r width height samples s =
    (let s = gl (glfwWindowHint GLFW_CLIENT_API GLFW_OPENGL_API) s;
         s = gl (glfwWindowHint GLFW_OPENGL_PROFILE GLFW_OPENGL_CORE_PROFILE) s;
         s = gl (glfwWindowHint GLFW_CONTEXT_VERSION_MAJOR 4) s;
         s = gl (glfwWindowHint GLFW_CONTEXT_VERSION_MINOR 5) s;
         s = (if debug_build be then gl (glfwWindowHint GLFW_OPENGL_DEBUG_CONTEXT 1) s else s);
         s = gl (glfwWindowHint GLFW_DEPTH_BITS 0) s;
         s = gl (glfwWindowHint GLFW_STENCIL_BITS 0) s;
         s = gl (glfwWindowHint GLFW_SAMPLES 0) s;
         window = glfwCreateWindow_answer be;
         s = gl (glfwCreateWindow width height ''Physically Based Rendering (OpenGL 4.5)'') s
     in if window = 0 then (Inl (runtime_error ''Failed to create OpenGL context''), s)
        else
          let s = gl (glfwMakeContextCurrent window) s;
              s = gl (glfwSwapInterval (- 1)) s;
              s = gl gladLoadGLLoader s
          in if \<not> gladLoadGLLoader_answer be then
               (Inl (runtime_error ''Failed to initialize OpenGL extensions loader''), s)
             else
               let s = (if debug_build be
                        then gl (glEnable GL_DEBUG_OUTPUT_SYNCHRONOUS) (gl glDebugMessageCallback s)
                        else s)
               in case createFrameBuffer be width height samples GL_RGBA16F GL_DEPTH24_STENCIL8 s of
                    (Inl e, s) \<Rightarrow> (Inl e, s)
                  | (Inr fb, s) \<Rightarrow>
                      let r = r\<lparr>m_framebuffer := fb\<rparr>
                      in if 0 <s samples then
                           (case createFrameBuffer be width height 0 GL_RGBA16F GL_NONE s of
                              (Inl e, s) \<Rightarrow> (Inl e, s)
                            | (Inr fb, s) \<Rightarrow> (Inr (window, r\<lparr>m_resolveFramebuffer := fb\<rparr>), s))
                         else (Inr (window, r\<lparr>m_resolveFramebuffer := m_framebuffer r\<rparr>), s))"

definition shutdown :: "Renderer \<Rightarrow> gl_state \<Rightarrow> Renderer \<times> gl_state" where
  "shutdown r s =
    (let (r, s) =
           (if fb_id (m_framebuffer r) \<noteq> fb_id (m_resolveFramebuffer r) then
              (let (fb, s) = deleteFrameBuffer (m_resolveFramebuffer r) s
               in (r\<lparr>m_resolveFramebuffer := fb\<rparr>, s))
            else (r, s));
         (fb, s) = deleteFrameBuffer (m_framebuffer r) s;
         r = r\<lparr>m_framebuffer := fb\<rparr>;
         (b, s) = deleteVertexBuffer (m_screenQuad r) s;
         r = r\<lparr>m_screenQuad := b\<rparr>;
         (b, s) = deleteVertexBuffer (m_skybox r) s;
         r = r\<lparr>m_skybox := b\<rparr>;
         (b, s) = deleteVertexBuffer (m_pbrModel r) s;
         r = r\<lparr>m_pbrModel := b\<rparr>;
         s = gl (glDeleteProgram (m_tonemapProgram r)) s;
         s = gl (glDeleteProgram (m_skyboxProgram r)) s;
         s = gl (glDeleteProgram (m_pbrProgram r)) s;
         (t, s) = deleteTexture (m_envTexture r) s;
         r = r\<lparr>m_envTexture := t\<rparr>;
         (t, s) = deleteTexture (m_irmapTexture r) s;
         r = r\<lparr>m_irmapTexture := t\<rparr>;
         (t, s) = deleteTexture (m_spmapTexture r) s;
         r = r\<lparr>m_spmapTexture := t\<rparr>;
         (t, s) = deleteTexture (m_spBRDF_LUT r) s;
         r = r\<lparr>m_spBRDF_LUT := t\<rparr>;
         (t, s) = deleteTexture (m_albedoTexture r) s;
         r = r\<lparr>m_albedoTexture := t\<rparr>;
         (t, s) = deleteTexture (m_normalTexture r) s;
         r = r\<lparr>m_normalTexture := t\<rparr>;
         (t, s) = deleteTexture (m_metalnessTexture r) s;
         r = r\<lparr>m_metalnessTexture := t\<rparr>;
         (t, s) = deleteTexture (m_roughnessTexture r) s;
         r = r\<lparr>m_roughnessTexture := t\<rparr>
     in (r, s))"

subsection \<open>The specular prefilter stage of setup\<close>

text \<open>
  Arithmetic in \<open>float\<close>, the IEEE 754 binary32 format: the exact result is rounded to the
  nearest number with a significand of 24 bits, and to the one with an even significand
  when two are equally near. \<open>float_exponent x\<close> is the exponent \<open>e\<close> with
  \<open>2^e \<le> x < 2^(e+1)\<close> of a positive \<open>x\<close>. Every value that this program converts or computes
  is 0 or lies between \<open>2^-31\<close> and \<open>2^31\<close>, so infinities, NaN and subnormal numbers do not
  occur and are left out. \<open>glm::max(x, y)\<close> is \<open>(x < y) ? y : x\<close>, the maximum.
\<close>

definition float_exponent :: "real \<Rightarrow> int" where
  "float_exponent x = (if 1 \<le> x then bitlen \<lfloor>x\<rfloor> - 1 else - bitlen (\<lceil>1 / x\<rceil> - 1))"

definition round_half_even :: "real \<Rightarrow> int" where
  "round_half_even q =
    (let f = \<lfloor>q\<rfloor>; r = q - of_int f
     in if r < 1 / 2 then f else if 1 / 2 < r then f + 1 else if even f then f else f + 1)"

definition float_round :: "real \<Rightarrow> GLfloat" where
  "float_round x =
    (if x = 0 then 0
     else let u = 2 powi (float_exponent \<bar>x\<bar> - 23)
          in sgn x * of_int (round_half_even (\<bar>x\<bar> / u)) * u)"

definition float_of_cint :: "cint \<Rightarrow> GLfloat" where
  "float_of_cint n = float_round (of_int (sint n))"

definition float_div :: "GLfloat \<Rightarrow> GLfloat \<Rightarrow> GLfloat" where
  "float_div a b = float_round (a / b)"

definition float_mul :: "GLfloat \<Rightarrow> GLfloat \<Rightarrow> GLfloat" where
  "float_mul a b = float_round (a * b)"

text \<open>The division of two \<open>int\<close> in C++ truncates towards zero.\<close>

definition c_div :: "cint \<Rightarrow> cint \<Rightarrow> cint" where
  "c_div a b = word_of_int (sint a sdiv sint b)"

text \<open>
  The loop \<open>for(int level=0, size=1024; level<=m_spmapTexture.levels; ++level, size/=2)\<close>,
  entered with \<open>level = 0\<close> and \<open>size = 1024\<close> (the variable \<open>size\<close> is written \<open>size'\<close>).
  Incrementing the largest \<open>int\<close> has no defined result in C++.
\<close>

function spmap_levels ::
  "GLuint \<Rightarrow> Texture \<Rightarrow> GLfloat \<Rightarrow> cint \<Rightarrow> cint \<Rightarrow> gl_state \<Rightarrow> (error + unit) \<times> gl_state" where
  "spmap_levels spmapProgram texture deltaRoughness level size' s =
    (if level \<le>s tex_levels texture then
       (let numGroups = unat (if 1 <s c_div size' 32 then c_div size' 32 else 1);
            s = gl (glBindImageTexture 0 (tex_id texture) level True 0 GL_WRITE_ONLY GL_RGBA16F) s;
            s = gl (glProgramUniform1f spmapProgram SpecularMapRoughness
                  (float_mul (float_of_cint level) deltaRoughness)) s;
            s = gl (glDispatchCompute numGroups numGroups 6) s
        in if level <s 0x7FFFFFFF
           then spmap_levels spmapProgram texture deltaRoughness (level + 1) (c_div size' 2) s
           else (Inl signed_overflow, s))
     else (Inr (), s))"
  by pat_completeness auto
termination
  apply (relation "measure (\<lambda>(p, texture, d, level, size', s).
        nat (sint (tex_levels texture) - sint level + 1))")
   apply (auto simp: word_sle_eq word_sless_alt sint_word_ariths)
  subgoal for texture level
    using sint_ge [of level] by (simp add: signed_take_bit_int_eq_self)
  done

declare spmap_levels.simps [simp del]

text \<open>
  \<open>const float deltaRoughness = 1.0f / glm::max(float(m_spmapTexture.levels-1), 1.0f)\<close>.
  Decrementing the smallest \<open>int\<close> has no defined result in C++.
\<close>

definition spmap_deltaRoughness :: "Texture \<Rightarrow> error + GLfloat" where
  "spmap_deltaRoughness texture =
    (if sint (tex_levels texture) - 1 < - (2 ^ 31) then Inl signed_overflow
     else Inr (float_div 1 (max (float_of_cint (tex_levels texture - 1)) 1)))"

text \<open>
  Modelled from the spec: the default value of the parameter \<open>levels\<close> of \<open>createTexture\<close>,
  which is in the declaration outside the source file. The call below leaves the number of
  levels out, and the texture has the full chain, so the default is not positive; it is
  taken to be 0. The function is the block of \<open>setup\<close> that computes the pre-filtered
  specular cubemap.
\<close>

definition setup_spmap :: "backend \<Rightarrow> Renderer \<Rightarrow> gl_state \<Rightarrow> (error + Renderer) \<times> gl_state" where
  "setup_spmap be r s =
    (case compileShader be ''shaders/glsl/spmap_cs.glsl'' GL_COMPUTE_SHADER s of
       (Inl e, s) \<Rightarrow> (Inl e, s)
     | (Inr shader, s) \<Rightarrow>
    (case linkProgram be [shader] s of
       (Inl e, s) \<Rightarrow> (Inl e, s)
     | (Inr spmapProgram, s) \<Rightarrow>
    (case createTexture GL_TEXTURE_CUBE_MAP 1024 1024 GL_RGBA16F 0 s of
       (Inl e, s) \<Rightarrow> (Inl e, s)
     | (Inr texture, s) \<Rightarrow>
         let r = r\<lparr>m_spmapTexture := texture\<rparr>
         in (case spmap_deltaRoughness (m_spmapTexture r) of
               Inl e \<Rightarrow> (Inl e, s)
             | Inr deltaRoughness \<Rightarrow>
                 let s = gl (glUseProgram spmapProgram) s;
                     s = gl (glBindTextureUnit 0 (tex_id (m_envTexture r))) s
                 in (case spmap_levels spmapProgram (m_spmapTexture r) deltaRoughness 0 1024 s of
                       (Inl e, s) \<Rightarrow> (Inl e, s)
                     | (Inr u, s) \<Rightarrow> (Inr r, gl (glDeleteProgram spmapProgram) s))))))"

subsection \<open>One frame\<close>

definition render ::
  "Renderer \<Rightarrow> nat \<Rightarrow> ViewSettings \<Rightarrow> gl_state \<Rightarrow> (error + unit) \<times> gl_state" where
  "render r window view s =
    (let s = gl (glProgramUniformMatrix4fv (m_skyboxProgram r) ViewProjectionMatrix
               (Proj_times_Rotation view (fb_width (m_framebuffer r)) (fb_height (m_framebuffer r)))) s;
         s = gl (glProgramUniformMatrix4fv (m_pbrProgram r) ViewProjectionMatrix
               (Proj_times_View view (fb_width (m_framebuffer r)) (fb_height (m_framebuffer r)))) s;
         s = gl (glProgramUniform3fv (m_pbrProgram r) EyePosition (Eye_Position view)) s;
         s = gl (glBindFramebuffer GL_FRAMEBUFFER (fb_id (m_framebuffer r))) s;
         s = gl (glClear GL_DEPTH_BUFFER_BIT) s;
         s = gl (glDisable GL_DEPTH_TEST) s;
         s = gl (glUseProgram (m_skyboxProgram r)) s;
         s = gl (glBindTextureUnit 0 (tex_id (m_envTexture r))) s;
         s = gl (glBindVertexArray (vb_vao (m_skybox r))) s;
         s = gl (glDrawElements GL_TRIANGLES (vb_numElements (m_skybox r)) GL_UNSIGNED_INT 0) s;
         s = gl (glEnable GL_DEPTH_TEST) s;
         s = gl (glUseProgram (m_pbrProgram r)) s;
         s = gl (glBindTextureUnit 0 (tex_id (m_albedoTexture r))) s;
         s = gl (glBindTextureUnit 1 (tex_id (m_normalTexture r))) s;
         s = gl (glBindTextureUnit 2 (tex_id (m_metalnessTexture r))) s;
         s = gl (glBindTextureUnit 3 (tex_id (m_roughnessTexture r))) s;
         s = gl (glBindTextureUnit 4 (tex_id (m_irmapTexture r))) s;
         s = gl (glBindTextureUnit 5 (tex_id (m_spmapTexture r))) s;
         s = gl (glBindTextureUnit 6 (tex_id (m_spBRDF_LUT r))) s;
         s = gl (glBindVertexArray (vb_vao (m_pbrModel r))) s;
         s = gl (glDrawElements GL_TRIANGLES (vb_numElements (m_pbrModel r)) GL_UNSIGNED_INT 0) s
     in case resolveFramebuffer (m_framebuffer r) (m_resolveFramebuffer r) s of
          (Inl e, s) \<Rightarrow> (Inl e, s)
        | (Inr u, s) \<Rightarrow>
            let s = gl (glBindFramebuffer GL_FRAMEBUFFER 0) s;
                s = gl (glUseProgram (m_tonemapProgram r)) s;
                s = gl (glBindTextureUnit 0 (fb_colorTarget (m_resolveFramebuffer r))) s;
                s = gl (glBindVertexArray (vb_vao (m_screenQuad r))) s;
                s = gl (glDrawArrays GL_TRIANGLE_STRIP 0 4) s;
                s = gl (glfwSwapBuffers window) s
            in (Inr (), s))"

subsection \<open>Reading the log\<close>

text \<open>
  The properties below are stated on the log of commands. \<open>objects command cs\<close> lists, in
  the order of the log \<open>cs\<close>, the object names that were passed as first argument to the
  command of that name; \<open>call_name\<close> is the name of a command; \<open>dispatches cs\<close> lists the
  group counts of the compute dispatches in \<open>cs\<close>, and \<open>roughness cs\<close> the values given to
  \<open>glProgramUniform1f\<close>. \<open>spmap_pass p t d L M\<close> is what one pass of
  the specular prefilter loop sends at level \<open>L\<close> when the size is \<open>M\<close>. A renderer that has
  not been initialised holds empty records.
\<close>

definition objects :: "string \<Rightarrow> gl_call list \<Rightarrow> GLuint list" where
  "objects command cs =
    concat (map (\<lambda>c. case c of
       Call name (U n # args) \<Rightarrow> if name = command then [n] else []
     | Call name args \<Rightarrow> []) cs)"

definition call_name :: "gl_call \<Rightarrow> string" where
  "call_name c = (case c of Call name args \<Rightarrow> name)"

definition dispatches :: "gl_call list \<Rightarrow> (GLuint \<times> GLuint \<times> GLuint) list" where
  "dispatches cs =
    concat (map (\<lambda>c. case c of
       Call name [U x, U y, U z] \<Rightarrow> if name = ''glDispatchCompute'' then [(x, y, z)] else []
     | Call name args \<Rightarrow> []) cs)"

definition roughness :: "gl_call list \<Rightarrow> GLfloat list" where
  "roughness cs =
    concat (map (\<lambda>c. case c of
       Call name [U p, U l, F v] \<Rightarrow> if name = ''glProgramUniform1f'' then [v] else []
     | Call name args \<Rightarrow> []) cs)"

definition spmap_pass :: "GLuint \<Rightarrow> Texture \<Rightarrow> GLfloat \<Rightarrow> nat \<Rightarrow> nat \<Rightarrow> gl_call list" where
  "spmap_pass p t d L M =
    [glBindImageTexture 0 (tex_id t) (of_nat L) True 0 GL_WRITE_ONLY GL_RGBA16F,
     glProgramUniform1f p SpecularMapRoughness (float_mul (float_of_cint (of_nat L)) d),
     glDispatchCompute (max 1 (M div 32)) (max 1 (M div 32)) 6]"

definition created_framebuffers :: "gl_call list \<Rightarrow> GLuint list" where
  "created_framebuffers = objects ''glCreateFramebuffers''"

definition deleted_framebuffers :: "gl_call list \<Rightarrow> GLuint list" where
  "deleted_framebuffers = objects ''glDeleteFramebuffers''"

definition new_Renderer :: Renderer where
  "new_Renderer = \<lparr>m_framebuffer = new_FrameBuffer, m_resolveFramebuffer = new_FrameBuffer,
     m_screenQuad = new_VertexBuffer, m_skybox = new_VertexBuffer,
     m_pbrModel = new_VertexBuffer,
     m_tonemapProgram = 0, m_skyboxProgram = 0, m_pbrProgram = 0,
     m_envTexture = new_Texture, m_irmapTexture = new_Texture, m_spmapTexture = new_Texture,
     m_spBRDF_LUT = new_Texture, m_albedoTexture = new_Texture, m_normalTexture = new_Texture,
     m_metalnessTexture = new_Texture, m_roughnessTexture = new_Texture\<rparr>"

subsection \<open>A backend on which every operation succeeds\<close>

definition backend_ok :: backend where
  "backend_ok = \<lparr>debug_build = False, glfwCreateWindow_answer = 1,
     gladLoadGLLoader_answer = True,
     glCheckNamedFramebufferStatus_answer = (\<lambda>log name. GL_FRAMEBUFFER_COMPLETE),
     File_readText_answer = (\<lambda>filename. ''void main() {}''),
     glGetShaderiv_answer = (\<lambda>log name pname. GL_TRUE),
     glGetShaderInfoLog_answer = (\<lambda>log name. []),
     glGetProgramiv_answer = (\<lambda>log name pname. GL_TRUE),
     glGetProgramInfoLog_answer = (\<lambda>log name. [])\<rparr>"

text \<open>
  A backend on which no program links and that has no log for it: every status of a
  program is \<open>GL_FALSE\<close>, and the length of its log is 0.
\<close>

definition backend_no_log :: backend where
  "backend_no_log = backend_ok\<lparr>glGetProgramiv_answer := (\<lambda>log name pname. 0)\<rparr>"

section \<open>Properties\<close>

lemma gl_calls [simp]: "calls (gl c s) = calls s @ [c]"
  by (simp add: gl_def)

lemma fold_gl: "fold (\<lambda>x. gl (f x)) xs s = s\<lparr>calls := calls s @ map f xs\<rparr>"
  by (induction xs arbitrary: s) (simp_all add: gl_def)

lemma fold_calls:
  "fold (\<lambda>x s. s\<lparr>calls := calls s @ [f x]\<rparr>) xs s = s\<lparr>calls := calls s @ map f xs\<rparr>"
  by (induction xs arbitrary: s) simp_all

lemma fold_calls2:
  "fold (\<lambda>x s. s\<lparr>calls := calls s @ [f x, g x]\<rparr>) xs s
     = s\<lparr>calls := calls s @ concat (map (\<lambda>x. [f x, g x]) xs)\<rparr>"
  by (induction xs arbitrary: s) simp_all

lemma created_append [simp]:
  "created_framebuffers (xs @ ys) = created_framebuffers xs @ created_framebuffers ys"
  by (simp add: created_framebuffers_def objects_def)

lemma created_Nil [simp]: "created_framebuffers [] = []"
  by (simp add: created_framebuffers_def objects_def)

lemma created_Cons2 [simp]:
  "created_framebuffers (x # y # ys) = created_framebuffers [x] @ created_framebuffers (y # ys)"
  by (simp add: created_framebuffers_def objects_def)

lemma created_simps [simp]:
  "created_framebuffers [glCreateFramebuffers n] = [n]"
  "created_framebuffers [glCreateRenderbuffers n] = []"
  "created_framebuffers [glCreateTextures e n] = []"
  "created_framebuffers [glNamedRenderbufferStorageMultisample n i e j k] = []"
  "created_framebuffers [glNamedRenderbufferStorage n e j k] = []"
  "created_framebuffers [glTextureStorage2D n i e j k] = []"
  "created_framebuffers [glNamedFramebufferRenderbuffer n e e' m] = []"
  "created_framebuffers [glNamedFramebufferTexture n e m i] = []"
  "created_framebuffers [glCheckNamedFramebufferStatus n e] = []"
  "created_framebuffers [glfwWindowHint a b] = []"
  "created_framebuffers [glfwCreateWindow i j t] = []"
  "created_framebuffers [glfwMakeContextCurrent a] = []"
  "created_framebuffers [glfwSwapInterval i] = []"
  "created_framebuffers [gladLoadGLLoader] = []"
  "created_framebuffers [glDebugMessageCallback] = []"
  "created_framebuffers [glEnable e] = []"
  by (simp_all add: created_framebuffers_def objects_def gl_call)

lemma deleted_append [simp]:
  "deleted_framebuffers (xs @ ys) = deleted_framebuffers xs @ deleted_framebuffers ys"
  by (simp add: deleted_framebuffers_def objects_def)

lemma deleted_Nil [simp]: "deleted_framebuffers [] = []"
  by (simp add: deleted_framebuffers_def objects_def)

lemma deleted_Cons2 [simp]:
  "deleted_framebuffers (x # y # ys) = deleted_framebuffers [x] @ deleted_framebuffers (y # ys)"
  by (simp add: deleted_framebuffers_def objects_def)

lemma deleted_simps [simp]:
  "deleted_framebuffers [glDeleteFramebuffers n] = [n]"
  "deleted_framebuffers [glDeleteRenderbuffers n] = []"
  "deleted_framebuffers [glDeleteTextures n] = []"
  "deleted_framebuffers [glDeleteVertexArrays n] = []"
  "deleted_framebuffers [glDeleteBuffers n] = []"
  "deleted_framebuffers [glDeleteProgram n] = []"
  by (simp_all add: deleted_framebuffers_def objects_def gl_call)

subsection \<open>The number of mip levels\<close>

lemma sint_succ:
  "0 \<le> sint levels \<Longrightarrow> sint levels < 32 \<Longrightarrow> sint (levels + 1) = sint levels + 1" for levels :: cint
  by (simp add: sint_word_ariths signed_take_bit_int_eq_self)

lemma unat_sint: "0 \<le> sint x \<Longrightarrow> unat x = nat (sint x)" for x :: cint
proof -
  assume a: "0 \<le> sint x"
  have "sint x < 2 ^ 32" using sint_lt [of x] by simp
  then have "uint x = sint x" using a by (simp add: uint_sint take_bit_int_eq_self)
  then show ?thesis by (simp add: unat_eq_nat_uint)
qed

lemma shifted_zero_iff:
  "0 \<le> sint wh \<Longrightarrow> 0 \<le> sint levels \<Longrightarrow>
   signed_drop_bit (unat levels) wh = 0 \<longleftrightarrow> bitlen (sint wh) \<le> sint levels" for wh levels :: cint
proof -
  assume a: "0 \<le> sint wh" "0 \<le> sint levels"
  have "signed_drop_bit (unat levels) wh = 0 \<longleftrightarrow> sint (signed_drop_bit (unat levels) wh) = 0"
    by (metis signed_eq_0_iff)
  also have "\<dots> \<longleftrightarrow> drop_bit (nat (sint levels)) (sint wh) = 0"
    using a by (simp add: sint_signed_drop_bit_eq unat_sint)
  also have "\<dots> \<longleftrightarrow> sint wh < 2 ^ nat (sint levels)"
    using a by (auto simp: drop_bit_eq_div zdiv_eq_0_iff)
  also have "\<dots> \<longleftrightarrow> bitlen (sint wh) \<le> sint levels"
    using a by (simp add: bitlen_le_iff_power)
  finally show ?thesis .
qed

lemma bitlen_sint_le: "bitlen (sint wh) \<le> 31" for wh :: cint
proof -
  have "sint wh < 2 ^ 31" using sint_lt [of wh] by simp
  then show ?thesis by (simp add: bitlen_le_iff_power)
qed

lemma mip_levels_result:
  "0 \<le> sint wh \<Longrightarrow> 1 \<le> sint levels \<Longrightarrow> sint levels \<le> 31 \<Longrightarrow>
   mip_levels wh levels = Inr (word_of_int (max (sint levels) (bitlen (sint wh))))"
proof (induction wh levels rule: mip_levels.induct)
  case (1 wh levels)
  have nub: "\<not> (levels <s 0 \<or> 32 \<le>s levels)"
    using "1.prems" by (simp add: word_sle_eq word_sless_alt)
  show ?case
  proof (cases "bitlen (sint wh) \<le> sint levels")
    case True
    then have "signed_drop_bit (unat levels) wh = 0"
      using "1.prems" by (simp add: shifted_zero_iff)
    then have "mip_levels wh levels = Inr levels"
      using nub by (subst mip_levels.simps) simp
    moreover have "max (sint levels) (bitlen (sint wh)) = sint levels"
      using True by simp
    ultimately show ?thesis by simp
  next
    case False
    then have nz: "signed_drop_bit (unat levels) wh \<noteq> 0"
      using "1.prems" by (simp add: shifted_zero_iff)
    have s: "sint (levels + 1) = sint levels + 1"
      using "1.prems" by (simp add: sint_succ)
    have le: "sint levels + 1 \<le> 31"
      using False bitlen_sint_le [of wh] by linarith
    have "mip_levels wh levels = mip_levels wh (levels + 1)"
      using nub nz by (subst mip_levels.simps) simp
    also have "\<dots> = Inr (word_of_int (max (sint (levels + 1)) (bitlen (sint wh))))"
      using "1.IH" [OF nub nz] "1.prems" s le by simp
    also have "max (sint (levels + 1)) (bitlen (sint wh)) = max (sint levels) (bitlen (sint wh))"
      using False s by simp
    finally show ?thesis .
  qed
qed

lemma bitlen_or:
  assumes "0 \<le> a" "0 \<le> b"
  shows "bitlen (a OR b) = bitlen (max a b)"
proof -
  have iff: "a OR b < 2 ^ n \<longleftrightarrow> max a b < 2 ^ n" for n
  proof
    assume h: "a OR b < 2 ^ n"
    have "a \<le> a OR b" using assms by (simp add: or_greater_eq)
    moreover have "b \<le> a OR b" using assms by (metis or_greater_eq or.commute)
    ultimately show "max a b < 2 ^ n" using h by simp
  next
    assume "max a b < 2 ^ n"
    then show "a OR b < 2 ^ n" using assms by (simp add: OR_upper)
  qed
  have "bitlen (a OR b) \<le> w \<longleftrightarrow> bitlen (max a b) \<le> w" for w
    by (simp add: bitlen_le_iff_power iff)
  then show ?thesis by (meson order_antisym order_refl)
qed

lemma mip_levels_ge:
  "mip_levels wh levels = Inr r \<Longrightarrow> sint levels \<le> sint r"
proof (induction wh levels rule: mip_levels.induct)
  case (1 wh levels)
  show ?case
  proof (cases "levels <s 0 \<or> 32 \<le>s levels")
    case True
    then show ?thesis using "1.prems" by (subst (asm) mip_levels.simps) simp
  next
    case nub: False
    show ?thesis
    proof (cases "signed_drop_bit (unat levels) wh \<noteq> 0")
      case True
      have "mip_levels wh (levels + 1) = Inr r"
        using "1.prems" nub True by (subst (asm) mip_levels.simps) simp
      then have "sint (levels + 1) \<le> sint r" using "1.IH" [OF nub True] by simp
      moreover have "sint (levels + 1) = sint levels + 1"
        using nub by (simp add: sint_succ word_sle_eq word_sless_alt)
      ultimately show ?thesis by simp
    next
      case False
      then show ?thesis using "1.prems" nub by (subst (asm) mip_levels.simps) simp
    qed
  qed
qed


lemma createTexture_Inr:
  "(if levels \<le>s 0 then mip_levels (width OR height) 1 else Inr levels) = Inr n \<Longrightarrow>
   \<exists>t s'. createTexture target width height internalformat levels s = (Inr t, s') \<and> tex_levels t = n"
  by (cases "levels \<le>s 0") (simp_all add: createTexture_def Let_def new_texture_def split_def)

lemma createTexture_Inr_levels:
  "createTexture target width height internalformat levels s = (Inr t, s') \<Longrightarrow>
   (if levels \<le>s 0 then mip_levels (width OR height) 1 else Inr levels) = Inr (tex_levels t)"
  by (auto simp: createTexture_def Let_def new_texture_def split_def split: sum.splits if_splits)

lemma mip_levels_negative:
  "sint wh < 0 \<Longrightarrow> mip_levels wh levels = Inl undefined_shift"
proof (induction wh levels rule: mip_levels.induct)
  case (1 wh levels)
  show ?case
  proof (cases "levels <s 0 \<or> 32 \<le>s levels")
    case True
    then show ?thesis by (subst mip_levels.simps) simp
  next
    case nub: False
    have "sint (signed_drop_bit (unat levels) wh) < 0"
      using "1.prems" by (simp add: sint_signed_drop_bit_eq)
    then have nz: "signed_drop_bit (unat levels) wh \<noteq> 0" by auto
    have "mip_levels wh levels = mip_levels wh (levels + 1)"
      using nub nz by (subst mip_levels.simps) simp
    then show ?thesis using "1.IH" [OF nub nz "1.prems"] by simp
  qed
qed

text \<open>
  Claim C1. \<open>createTexture\<close> called with \<open>levels = 1\<close> produces a texture whose \<open>levels\<close>
  field is exactly 1, for every width and height. Called with \<open>levels \<le> 0\<close> and the width
  and height of a texture, which are not negative, it produces a texture whose \<open>levels\<close>
  field is \<open>1 + floor(log2(max(width, height)))\<close> for every size with
  \<open>max(width, height) \<ge> 1\<close>, where the logarithm is defined, and 1 for the empty size
  \<open>0 \<times> 0\<close>. Every texture that \<open>createTexture\<close> produces has a level count of at least 1.
\<close>

theorem createTexture_levels:
  "(levels = 1 \<longrightarrow>
      (\<exists>t s'. createTexture target width height internalformat levels s = (Inr t, s')
         \<and> tex_levels t = 1))
   \<and> (levels \<le>s 0 \<and> 0 \<le>s width \<and> 0 \<le>s height \<longrightarrow>
      (\<exists>t s'. createTexture target width height internalformat levels s = (Inr t, s')
         \<and> sint (tex_levels t) =
             (if 1 \<le> max (sint width) (sint height)
              then 1 + \<lfloor>log 2 (real_of_int (max (sint width) (sint height)))\<rfloor> else 1)))
   \<and> (\<forall>t s'. createTexture target width height internalformat levels s = (Inr t, s')
         \<longrightarrow> 1 \<le>s tex_levels t)"
proof (intro conjI impI allI)
  assume "levels = 1"
  then have "(if levels \<le>s 0 then mip_levels (width OR height) 1 else Inr levels) = Inr 1"
    by (simp add: word_sle_eq)
  from createTexture_Inr [OF this]
  show "\<exists>t s'. createTexture target width height internalformat levels s = (Inr t, s')
         \<and> tex_levels t = 1" .
next
  let ?m = "max (sint width) (sint height)"
  assume a: "levels \<le>s 0 \<and> 0 \<le>s width \<and> 0 \<le>s height"
  then have nn: "0 \<le> sint width" "0 \<le> sint height" by (simp_all add: word_sle_eq)
  have or: "sint (width OR height) = sint width OR sint height"
    by (rule signed_or_eq)
  then have nnor: "0 \<le> sint (width OR height)" using nn by simp
  have bl: "bitlen (sint (width OR height)) = bitlen ?m"
    using nn by (simp add: or bitlen_or)
  let ?n = "word_of_int (max 1 (bitlen ?m)) :: cint"
  have "mip_levels (width OR height) 1 = Inr ?n"
    using mip_levels_result [OF nnor, of 1] bl by simp
  then have "(if levels \<le>s 0 then mip_levels (width OR height) 1 else Inr levels) = Inr ?n"
    using a by simp
  from createTexture_Inr [OF this] obtain t s'
    where t: "createTexture target width height internalformat levels s = (Inr t, s')"
      "tex_levels t = ?n" by blast
  have "bitlen ?m \<le> 31" using bl bitlen_sint_le [of "width OR height"] by simp
  moreover have "0 \<le> bitlen ?m" by (rule bitlen_nonneg)
  ultimately have "sint ?n = max 1 (bitlen ?m)"
    by (simp add: sint_sbintrunc' signed_take_bit_int_eq_self)
  also have "\<dots> = (if 1 \<le> ?m then 1 + \<lfloor>log 2 (real_of_int ?m)\<rfloor> else 1)"
  proof (cases "1 \<le> ?m")
    case True
    then have "bitlen ?m = \<lfloor>log 2 (real_of_int ?m)\<rfloor> + 1" by (simp add: bitlen_alt_def)
    moreover have "1 \<le> bitlen ?m" using True by (simp add: bitlen_ge_iff_power)
    ultimately show ?thesis using True by simp
  next
    case False
    then have "?m \<le> 0" by linarith
    then have "bitlen ?m = 0" by (simp only: bitlen_eq_zero_iff)
    then show ?thesis using False by simp
  qed
  finally show "\<exists>t s'. createTexture target width height internalformat levels s = (Inr t, s')
         \<and> sint (tex_levels t) =
             (if 1 \<le> ?m then 1 + \<lfloor>log 2 (real_of_int ?m)\<rfloor> else 1)"
    using t by auto
next
  fix t s'
  assume "createTexture target width height internalformat levels s = (Inr t, s')"
  from createTexture_Inr_levels [OF this]
  have r: "(if levels \<le>s 0 then mip_levels (width OR height) 1 else Inr levels) = Inr (tex_levels t)" .
  show "1 \<le>s tex_levels t"
  proof (cases "levels \<le>s 0")
    case True
    then have "mip_levels (width OR height) 1 = Inr (tex_levels t)" using r by simp
    from mip_levels_ge [OF this] show ?thesis by (simp add: word_sle_eq)
  next
    case False
    then have "tex_levels t = levels" using r by simp
    then show ?thesis using False by (simp add: word_sle_eq)
  qed
qed

theorem createTexture_levels_witness:
  "(\<exists>t s'. createTexture GL_TEXTURE_2D 256 256 GL_RGBA16F 1 gl_init = (Inr t, s')
      \<and> tex_levels t = 1 \<and> 1 \<le>s tex_levels t)
   \<and> (0 :: cint) \<le>s 0 \<and> (0 :: cint) \<le>s 1024
   \<and> (\<exists>t s'. createTexture GL_TEXTURE_CUBE_MAP 1024 1024 GL_RGBA16F 0 gl_init = (Inr t, s')
      \<and> sint (tex_levels t) = 1 + \<lfloor>log 2 (real_of_int 1024)\<rfloor>)"
  using createTexture_levels [where levels = 1 and width = 256 and height = 256
      and target = GL_TEXTURE_2D and internalformat = GL_RGBA16F and s = gl_init]
    createTexture_levels [where levels = 0 and width = 1024 and height = 1024
      and target = GL_TEXTURE_CUBE_MAP and internalformat = GL_RGBA16F and s = gl_init]
  by (auto simp: word_sle_eq)

subsection \<open>Framebuffers and their attachments\<close>

lemma createFrameBuffer_log:
  assumes "createFrameBuffer be width height samples colorFormat depthstencilFormat s = (Inr fb, s')"
  shows "calls s' = calls s @ [glCreateFramebuffers (fb_id fb)]
      @ (if colorFormat = GL_NONE then []
         else if 0 <s samples then
           [glCreateRenderbuffers (fb_colorTarget fb),
            glNamedRenderbufferStorageMultisample (fb_colorTarget fb) samples colorFormat width height,
            glNamedFramebufferRenderbuffer (fb_id fb) GL_COLOR_ATTACHMENT0 GL_RENDERBUFFER
              (fb_colorTarget fb)]
         else
           [glCreateTextures GL_TEXTURE_2D (fb_colorTarget fb),
            glTextureStorage2D (fb_colorTarget fb) 1 colorFormat width height,
            glNamedFramebufferTexture (fb_id fb) GL_COLOR_ATTACHMENT0 (fb_colorTarget fb) 0])
      @ (if depthstencilFormat = GL_NONE then []
         else if 0 <s samples then
           [glCreateRenderbuffers (fb_depthStencilTarget fb),
            glNamedRenderbufferStorageMultisample (fb_depthStencilTarget fb) samples
              depthstencilFormat width height,
            glNamedFramebufferRenderbuffer (fb_id fb) GL_DEPTH_STENCIL_ATTACHMENT GL_RENDERBUFFER
              (fb_depthStencilTarget fb)]
         else
           [glCreateRenderbuffers (fb_depthStencilTarget fb),
            glNamedRenderbufferStorage (fb_depthStencilTarget fb) depthstencilFormat width height,
            glNamedFramebufferRenderbuffer (fb_id fb) GL_DEPTH_STENCIL_ATTACHMENT GL_RENDERBUFFER
              (fb_depthStencilTarget fb)])
      @ [glCheckNamedFramebufferStatus (fb_id fb) GL_DRAW_FRAMEBUFFER]
    \<and> (fb_colorTarget fb = 0 \<longleftrightarrow> colorFormat = GL_NONE)
    \<and> (fb_depthStencilTarget fb = 0 \<longleftrightarrow> depthstencilFormat = GL_NONE)
    \<and> fb_id fb \<noteq> 0 \<and> fb_samples fb = samples"
  using assms
  by (auto simp: createFrameBuffer_def Let_def split_def new_framebuffer_def new_renderbuffer_def
      new_texture_def new_FrameBuffer_def split: if_splits)

lemma createFrameBuffer_names:
  assumes "createFrameBuffer be width height samples colorFormat depthstencilFormat s = (Inr fb, s')"
  shows "fb_id fb = Suc (framebuffer_names s) \<and> framebuffer_names s' = Suc (framebuffer_names s)"
  using assms
  by (auto simp: createFrameBuffer_def Let_def split_def new_framebuffer_def new_renderbuffer_def
      new_texture_def new_FrameBuffer_def gl_def split: if_splits)

lemma createFrameBuffer_created:
  assumes "createFrameBuffer be width height samples colorFormat depthstencilFormat s = (Inr fb, s')"
  shows "created_framebuffers (calls s') = created_framebuffers (calls s) @ [fb_id fb]"
  using createFrameBuffer_log [OF assms] by (simp add: created_Cons2)

lemma initialize_Inr:
  assumes "initialize be r0 width height samples s0 = (Inr (window, r1), s1)"
  shows "\<exists>s fb s'. created_framebuffers (calls s) = created_framebuffers (calls s0)
     \<and> createFrameBuffer be width height samples GL_RGBA16F GL_DEPTH24_STENCIL8 s = (Inr fb, s')
     \<and> (if 0 <s samples
        then (\<exists>fb2. createFrameBuffer be width height 0 GL_RGBA16F GL_NONE s' = (Inr fb2, s1)
                \<and> r1 = r0\<lparr>m_framebuffer := fb, m_resolveFramebuffer := fb2\<rparr>)
        else s1 = s' \<and> r1 = r0\<lparr>m_framebuffer := fb, m_resolveFramebuffer := fb\<rparr>)"
proof -
  let ?s = "let s = gl (glfwWindowHint GLFW_CLIENT_API GLFW_OPENGL_API) s0;
         s = gl (glfwWindowHint GLFW_OPENGL_PROFILE GLFW_OPENGL_CORE_PROFILE) s;
         s = gl (glfwWindowHint GLFW_CONTEXT_VERSION_MAJOR 4) s;
         s = gl (glfwWindowHint GLFW_CONTEXT_VERSION_MINOR 5) s;
         s = (if debug_build be then gl (glfwWindowHint GLFW_OPENGL_DEBUG_CONTEXT 1) s else s);
         s = gl (glfwWindowHint GLFW_DEPTH_BITS 0) s;
         s = gl (glfwWindowHint GLFW_STENCIL_BITS 0) s;
         s = gl (glfwWindowHint GLFW_SAMPLES 0) s;
         s = gl (glfwCreateWindow width height ''Physically Based Rendering (OpenGL 4.5)'') s;
         s = gl (glfwMakeContextCurrent (glfwCreateWindow_answer be)) s;
         s = gl (glfwSwapInterval (- 1)) s;
         s = gl gladLoadGLLoader s
      in (if debug_build be
          then gl (glEnable GL_DEBUG_OUTPUT_SYNCHRONOUS) (gl glDebugMessageCallback s)
          else s)"
  have cs: "created_framebuffers (calls ?s) = created_framebuffers (calls s0)"
    by (simp add: Let_def)
  have "\<exists>fb s'. createFrameBuffer be width height samples GL_RGBA16F GL_DEPTH24_STENCIL8 ?s = (Inr fb, s')
     \<and> (if 0 <s samples
        then (\<exists>fb2. createFrameBuffer be width height 0 GL_RGBA16F GL_NONE s' = (Inr fb2, s1)
                \<and> r1 = r0\<lparr>m_framebuffer := fb, m_resolveFramebuffer := fb2\<rparr>)
        else s1 = s' \<and> r1 = r0\<lparr>m_framebuffer := fb, m_resolveFramebuffer := fb\<rparr>)"
    using assms [symmetric] unfolding initialize_def Let_def
    by (simp split: if_splits prod.splits sum.splits)
  with cs show ?thesis by blast
qed

lemma initialize_framebuffers:
  assumes "initialize be r0 width height samples s0 = (Inr (window, r1), s1)"
  shows "fb_id (m_framebuffer r1) \<noteq> 0
    \<and> fb_colorTarget (m_framebuffer r1) \<noteq> 0 \<and> fb_depthStencilTarget (m_framebuffer r1) \<noteq> 0
    \<and> (if 0 <s samples
        then fb_id (m_resolveFramebuffer r1) = Suc (fb_id (m_framebuffer r1))
          \<and> created_framebuffers (calls s1) = created_framebuffers (calls s0)
              @ [fb_id (m_framebuffer r1), fb_id (m_resolveFramebuffer r1)]
        else m_resolveFramebuffer r1 = m_framebuffer r1
          \<and> created_framebuffers (calls s1) = created_framebuffers (calls s0)
              @ [fb_id (m_framebuffer r1)])"
proof -
  from initialize_Inr [OF assms] obtain s fb s' where
    cs: "created_framebuffers (calls s) = created_framebuffers (calls s0)" and
    fb: "createFrameBuffer be width height samples GL_RGBA16F GL_DEPTH24_STENCIL8 s = (Inr fb, s')" and
    rest: "if 0 <s samples
        then (\<exists>fb2. createFrameBuffer be width height 0 GL_RGBA16F GL_NONE s' = (Inr fb2, s1)
                \<and> r1 = r0\<lparr>m_framebuffer := fb, m_resolveFramebuffer := fb2\<rparr>)
        else s1 = s' \<and> r1 = r0\<lparr>m_framebuffer := fb, m_resolveFramebuffer := fb\<rparr>"
    by blast
  note n1 = createFrameBuffer_names [OF fb]
  show ?thesis
  proof (cases "0 <s samples")
    case True
    then obtain fb2 where fb2: "createFrameBuffer be width height 0 GL_RGBA16F GL_NONE s' = (Inr fb2, s1)"
        and r1: "r1 = r0\<lparr>m_framebuffer := fb, m_resolveFramebuffer := fb2\<rparr>"
      using rest by auto
    note n2 = createFrameBuffer_names [OF fb2]
    note c1 = createFrameBuffer_created [OF fb] createFrameBuffer_created [OF fb2]
    note l1 = createFrameBuffer_log [OF fb]
    show ?thesis using True n1 n2 r1 cs c1 l1
      by (simp add: GL_RGBA16F_def GL_DEPTH24_STENCIL8_def GL_NONE_def)
  next
    case False
    then have "s1 = s'" "r1 = r0\<lparr>m_framebuffer := fb, m_resolveFramebuffer := fb\<rparr>"
      using rest by auto
    then show ?thesis
      using False n1 cs createFrameBuffer_created [OF fb] createFrameBuffer_log [OF fb]
      by (simp add: GL_RGBA16F_def GL_DEPTH24_STENCIL8_def GL_NONE_def)
  qed
qed


lemma initialize_example_0:
  "fst (initialize backend_ok new_Renderer 1024 768 0 gl_init) =
    Inr (1, new_Renderer
       \<lparr>m_framebuffer := \<lparr>fb_id = 1, fb_colorTarget = 1, fb_depthStencilTarget = 1,
            fb_width = 1024, fb_height = 768, fb_samples = 0\<rparr>,
        m_resolveFramebuffer := \<lparr>fb_id = 1, fb_colorTarget = 1, fb_depthStencilTarget = 1,
            fb_width = 1024, fb_height = 768, fb_samples = 0\<rparr>\<rparr>)"
  by (simp add: initialize_def createFrameBuffer_def Let_def split_def
      new_framebuffer_def new_renderbuffer_def new_texture_def new_FrameBuffer_def
      backend_ok_def gl_init_def gl_def word_sless_alt
      GL_NONE_def GL_RGBA16F_def GL_DEPTH24_STENCIL8_def)

lemma initialize_example_16:
  "fst (initialize backend_ok new_Renderer 1024 768 16 gl_init) =
    Inr (1, new_Renderer
       \<lparr>m_framebuffer := \<lparr>fb_id = 1, fb_colorTarget = 1, fb_depthStencilTarget = 2,
            fb_width = 1024, fb_height = 768, fb_samples = 16\<rparr>,
        m_resolveFramebuffer := \<lparr>fb_id = 2, fb_colorTarget = 1, fb_depthStencilTarget = 0,
            fb_width = 1024, fb_height = 768, fb_samples = 0\<rparr>\<rparr>)"
  by (simp add: initialize_def createFrameBuffer_def Let_def split_def
      new_framebuffer_def new_renderbuffer_def new_texture_def new_FrameBuffer_def
      backend_ok_def gl_init_def gl_def word_sless_alt
      GL_NONE_def GL_RGBA16F_def GL_DEPTH24_STENCIL8_def)

lemma deleted_deleteFrameBuffer:
  "deleted_framebuffers (calls (snd (deleteFrameBuffer fb s)))
     = deleted_framebuffers (calls s) @ (if fb_id fb \<noteq> 0 then [fb_id fb] else [])"
  by (simp add: deleteFrameBuffer_def Let_def)

lemma deleted_deleteVertexBuffer:
  "deleted_framebuffers (calls (snd (deleteVertexBuffer b s))) = deleted_framebuffers (calls s)"
  by (simp add: deleteVertexBuffer_def Let_def)

lemma deleted_deleteTexture:
  "deleted_framebuffers (calls (snd (deleteTexture t s))) = deleted_framebuffers (calls s)"
  by (simp add: deleteTexture_def)

lemma shutdown_deleted:
  "deleted_framebuffers (calls (snd (shutdown r s))) = deleted_framebuffers (calls s)
     @ (if fb_id (m_framebuffer r) \<noteq> fb_id (m_resolveFramebuffer r)
           \<and> fb_id (m_resolveFramebuffer r) \<noteq> 0
        then [fb_id (m_resolveFramebuffer r)] else [])
     @ (if fb_id (m_framebuffer r) \<noteq> 0 then [fb_id (m_framebuffer r)] else [])"
  by (simp add: shutdown_def Let_def split_def deleted_deleteFrameBuffer
      deleted_deleteVertexBuffer deleted_deleteTexture)

text \<open>
  Claim C4. Whenever \<open>createFrameBuffer\<close> returns a framebuffer, the commands it has sent are
  the creation of the framebuffer, the commands for the color attachment, those for the
  depth/stencil attachment, and the completeness check. With \<open>samples > 0\<close> each attachment
  that is asked for is a renderbuffer with multisampled storage. Otherwise (so with
  \<open>samples = 0\<close>) the color attachment is a 2D texture with one level, attached as a
  texture, and the depth/stencil attachment is a renderbuffer with plain storage. With the
  color format \<open>GL_NONE\<close> nothing is sent for a color attachment and \<open>colorTarget\<close> stays
  empty (zero); it is zero in no other case.
\<close>

theorem createFrameBuffer_attachments:
  assumes "createFrameBuffer be width height samples colorFormat depthstencilFormat s = (Inr fb, s')"
  shows "calls s' = calls s @ [glCreateFramebuffers (fb_id fb)]
      @ (if colorFormat = GL_NONE then []
         else if 0 <s samples then
           [glCreateRenderbuffers (fb_colorTarget fb),
            glNamedRenderbufferStorageMultisample (fb_colorTarget fb) samples colorFormat width height,
            glNamedFramebufferRenderbuffer (fb_id fb) GL_COLOR_ATTACHMENT0 GL_RENDERBUFFER
              (fb_colorTarget fb)]
         else
           [glCreateTextures GL_TEXTURE_2D (fb_colorTarget fb),
            glTextureStorage2D (fb_colorTarget fb) 1 colorFormat width height,
            glNamedFramebufferTexture (fb_id fb) GL_COLOR_ATTACHMENT0 (fb_colorTarget fb) 0])
      @ (if depthstencilFormat = GL_NONE then []
         else if 0 <s samples then
           [glCreateRenderbuffers (fb_depthStencilTarget fb),
            glNamedRenderbufferStorageMultisample (fb_depthStencilTarget fb) samples
              depthstencilFormat width height,
            glNamedFramebufferRenderbuffer (fb_id fb) GL_DEPTH_STENCIL_ATTACHMENT GL_RENDERBUFFER
              (fb_depthStencilTarget fb)]
         else
           [glCreateRenderbuffers (fb_depthStencilTarget fb),
            glNamedRenderbufferStorage (fb_depthStencilTarget fb) depthstencilFormat width height,
            glNamedFramebufferRenderbuffer (fb_id fb) GL_DEPTH_STENCIL_ATTACHMENT GL_RENDERBUFFER
              (fb_depthStencilTarget fb)])
      @ [glCheckNamedFramebufferStatus (fb_id fb) GL_DRAW_FRAMEBUFFER]
    \<and> (fb_colorTarget fb = 0 \<longleftrightarrow> colorFormat = GL_NONE)
    \<and> (fb_depthStencilTarget fb = 0 \<longleftrightarrow> depthstencilFormat = GL_NONE)
    \<and> fb_id fb \<noteq> 0 \<and> fb_samples fb = samples"
  using createFrameBuffer_log [OF assms] .

theorem createFrameBuffer_attachments_witness:
  "fst (createFrameBuffer backend_ok 1024 768 16 GL_RGBA16F GL_DEPTH24_STENCIL8 gl_init)
     = Inr \<lparr>fb_id = 1, fb_colorTarget = 1, fb_depthStencilTarget = 2,
            fb_width = 1024, fb_height = 768, fb_samples = 16\<rparr>
   \<and> calls (snd (createFrameBuffer backend_ok 1024 768 16 GL_RGBA16F GL_DEPTH24_STENCIL8 gl_init))
     = [glCreateFramebuffers 1,
        glCreateRenderbuffers 1,
        glNamedRenderbufferStorageMultisample 1 16 GL_RGBA16F 1024 768,
        glNamedFramebufferRenderbuffer 1 GL_COLOR_ATTACHMENT0 GL_RENDERBUFFER 1,
        glCreateRenderbuffers 2,
        glNamedRenderbufferStorageMultisample 2 16 GL_DEPTH24_STENCIL8 1024 768,
        glNamedFramebufferRenderbuffer 1 GL_DEPTH_STENCIL_ATTACHMENT GL_RENDERBUFFER 2,
        glCheckNamedFramebufferStatus 1 GL_DRAW_FRAMEBUFFER]"
proof -
  let ?r = "createFrameBuffer backend_ok 1024 768 16 GL_RGBA16F GL_DEPTH24_STENCIL8 gl_init"
  let ?fb = "\<lparr>fb_id = 1, fb_colorTarget = 1, fb_depthStencilTarget = 2,
            fb_width = 1024, fb_height = 768, fb_samples = 16\<rparr>"
  have f: "fst ?r = Inr ?fb"
    by (simp add: createFrameBuffer_def Let_def split_def new_framebuffer_def
        new_renderbuffer_def new_FrameBuffer_def backend_ok_def gl_init_def gl_def
        word_sless_alt GL_NONE_def GL_RGBA16F_def GL_DEPTH24_STENCIL8_def)
  then have h: "?r = (Inr ?fb, snd ?r)"
    by (simp add: prod_eq_iff)
  show ?thesis
    using f createFrameBuffer_attachments [OF h]
    by (simp add: word_sless_alt gl_init_def GL_NONE_def GL_RGBA16F_def GL_DEPTH24_STENCIL8_def)
qed

subsection \<open>Resolving the multisampled framebuffer\<close>

text \<open>
  Claim C5. When \<open>src\<close> and \<open>dst\<close> have the same identifier, \<open>resolveFramebuffer\<close> sends
  nothing and returns with the state unchanged (the two records are constant references and
  are not written). When the identifiers differ and \<open>src\<close> has an attachment, it returns after
  exactly two commands: one blit of the color buffer with the filter \<open>GL_NEAREST\<close> from \<open>src\<close>
  to \<open>dst\<close>, and then one invalidation of \<open>src\<close> that names exactly the attachments \<open>src\<close>
  has. The two framebuffers that \<open>initialize\<close> makes, the only ones that the program
  resolves, are of these two kinds: with \<open>samples > 0\<close> their identifiers differ and the main
  framebuffer has both attachments, so that the blit and the invalidation of both
  attachments are sent; otherwise they are the same record and nothing is sent.
\<close>

theorem resolveFramebuffer_calls:
  "(fb_id srcfb = fb_id dstfb \<longrightarrow> resolveFramebuffer srcfb dstfb s = (Inr (), s))
   \<and> (fb_id srcfb \<noteq> fb_id dstfb
        \<and> (fb_colorTarget srcfb \<noteq> 0 \<or> fb_depthStencilTarget srcfb \<noteq> 0) \<longrightarrow>
       resolveFramebuffer srcfb dstfb s =
          (Inr (), s\<lparr>calls := calls s @
             [glBlitNamedFramebuffer (fb_id srcfb) (fb_id dstfb)
                [0, 0, fb_width srcfb - 1, fb_height srcfb - 1]
                [0, 0, fb_width dstfb - 1, fb_height dstfb - 1] GL_COLOR_BUFFER_BIT GL_NEAREST,
              glInvalidateNamedFramebufferData (fb_id srcfb)
                ((if fb_colorTarget srcfb \<noteq> 0 then [GL_COLOR_ATTACHMENT0] else [])
                 @ (if fb_depthStencilTarget srcfb \<noteq> 0 then [GL_DEPTH_STENCIL_ATTACHMENT]
                    else []))]\<rparr>))
   \<and> (initialize be r0 width height samples s0 = (Inr (window, r1), s1) \<longrightarrow>
       resolveFramebuffer (m_framebuffer r1) (m_resolveFramebuffer r1) s =
          (Inr (), s\<lparr>calls := calls s @
             (if 0 <s samples then
                [glBlitNamedFramebuffer (fb_id (m_framebuffer r1)) (fb_id (m_resolveFramebuffer r1))
                   [0, 0, fb_width (m_framebuffer r1) - 1, fb_height (m_framebuffer r1) - 1]
                   [0, 0, fb_width (m_resolveFramebuffer r1) - 1,
                    fb_height (m_resolveFramebuffer r1) - 1] GL_COLOR_BUFFER_BIT GL_NEAREST,
                 glInvalidateNamedFramebufferData (fb_id (m_framebuffer r1))
                   [GL_COLOR_ATTACHMENT0, GL_DEPTH_STENCIL_ATTACHMENT]]
              else [])\<rparr>))"
proof (intro conjI impI)
  assume "fb_id srcfb = fb_id dstfb"
  then show "resolveFramebuffer srcfb dstfb s = (Inr (), s)"
    by (simp add: resolveFramebuffer_def)
next
  assume "fb_id srcfb \<noteq> fb_id dstfb
        \<and> (fb_colorTarget srcfb \<noteq> 0 \<or> fb_depthStencilTarget srcfb \<noteq> 0)"
  then show "resolveFramebuffer srcfb dstfb s =
          (Inr (), s\<lparr>calls := calls s @
             [glBlitNamedFramebuffer (fb_id srcfb) (fb_id dstfb)
                [0, 0, fb_width srcfb - 1, fb_height srcfb - 1]
                [0, 0, fb_width dstfb - 1, fb_height dstfb - 1] GL_COLOR_BUFFER_BIT GL_NEAREST,
              glInvalidateNamedFramebufferData (fb_id srcfb)
                ((if fb_colorTarget srcfb \<noteq> 0 then [GL_COLOR_ATTACHMENT0] else [])
                 @ (if fb_depthStencilTarget srcfb \<noteq> 0 then [GL_DEPTH_STENCIL_ATTACHMENT]
                    else []))]\<rparr>)"
    by (auto simp: resolveFramebuffer_def Let_def gl_def)
next
  assume "initialize be r0 width height samples s0 = (Inr (window, r1), s1)"
  note i = initialize_framebuffers [OF this]
  show "resolveFramebuffer (m_framebuffer r1) (m_resolveFramebuffer r1) s =
          (Inr (), s\<lparr>calls := calls s @
             (if 0 <s samples then
                [glBlitNamedFramebuffer (fb_id (m_framebuffer r1)) (fb_id (m_resolveFramebuffer r1))
                   [0, 0, fb_width (m_framebuffer r1) - 1, fb_height (m_framebuffer r1) - 1]
                   [0, 0, fb_width (m_resolveFramebuffer r1) - 1,
                    fb_height (m_resolveFramebuffer r1) - 1] GL_COLOR_BUFFER_BIT GL_NEAREST,
                 glInvalidateNamedFramebufferData (fb_id (m_framebuffer r1))
                   [GL_COLOR_ATTACHMENT0, GL_DEPTH_STENCIL_ATTACHMENT]]
              else [])\<rparr>)"
  proof (cases "0 <s samples")
    case True
    then show ?thesis using i by (simp add: resolveFramebuffer_def Let_def gl_def)
  next
    case False
    then show ?thesis using i by (simp add: resolveFramebuffer_def)
  qed
qed

theorem resolveFramebuffer_calls_witness:
  "resolveFramebuffer
      \<lparr>fb_id = 1, fb_colorTarget = 1, fb_depthStencilTarget = 1,
        fb_width = 1024, fb_height = 768, fb_samples = 0\<rparr>
      \<lparr>fb_id = 1, fb_colorTarget = 1, fb_depthStencilTarget = 1,
        fb_width = 1024, fb_height = 768, fb_samples = 0\<rparr> gl_init = (Inr (), gl_init)
   \<and> resolveFramebuffer
      \<lparr>fb_id = 1, fb_colorTarget = 1, fb_depthStencilTarget = 2,
        fb_width = 1024, fb_height = 768, fb_samples = 16\<rparr>
      \<lparr>fb_id = 2, fb_colorTarget = 1, fb_depthStencilTarget = 0,
        fb_width = 1024, fb_height = 768, fb_samples = 0\<rparr> gl_init =
      (Inr (), gl_init\<lparr>calls :=
         [glBlitNamedFramebuffer 1 2 [0, 0, 1023, 767] [0, 0, 1023, 767]
            GL_COLOR_BUFFER_BIT GL_NEAREST,
          glInvalidateNamedFramebufferData 1
            [GL_COLOR_ATTACHMENT0, GL_DEPTH_STENCIL_ATTACHMENT]]\<rparr>)
   \<and> fst (initialize backend_ok new_Renderer 1024 768 16 gl_init) =
       Inr (1, new_Renderer
         \<lparr>m_framebuffer := \<lparr>fb_id = 1, fb_colorTarget = 1, fb_depthStencilTarget = 2,
              fb_width = 1024, fb_height = 768, fb_samples = 16\<rparr>,
          m_resolveFramebuffer := \<lparr>fb_id = 2, fb_colorTarget = 1, fb_depthStencilTarget = 0,
              fb_width = 1024, fb_height = 768, fb_samples = 0\<rparr>\<rparr>)"
proof -
  let ?a = "\<lparr>fb_id = 1, fb_colorTarget = 1, fb_depthStencilTarget = 1,
        fb_width = 1024, fb_height = 768, fb_samples = 0\<rparr>"
  let ?m = "\<lparr>fb_id = 1, fb_colorTarget = 1, fb_depthStencilTarget = 2,
        fb_width = 1024, fb_height = 768, fb_samples = 16\<rparr>"
  let ?r = "\<lparr>fb_id = 2, fb_colorTarget = 1, fb_depthStencilTarget = 0,
        fb_width = 1024, fb_height = 768, fb_samples = 0\<rparr>"
  let ?i = "initialize backend_ok new_Renderer 1024 768 16 gl_init"
  have h: "?i = (Inr (1, new_Renderer\<lparr>m_framebuffer := ?m, m_resolveFramebuffer := ?r\<rparr>), snd ?i)"
    using initialize_example_16 by (simp add: prod_eq_iff)
  show ?thesis
    using initialize_example_16
      resolveFramebuffer_calls [where srcfb = ?a and dstfb = ?a and s = gl_init
        and be = backend_ok and ?r0.0 = new_Renderer and width = 1024 and height = 768
        and samples = 16 and ?s0.0 = gl_init and window = 1
        and ?r1.0 = "new_Renderer\<lparr>m_framebuffer := ?m, m_resolveFramebuffer := ?r\<rparr>"
        and ?s1.0 = "snd ?i"]
      resolveFramebuffer_calls [where srcfb = ?m and dstfb = ?r and s = gl_init
        and be = backend_ok and ?r0.0 = new_Renderer and width = 1024 and height = 768
        and samples = 16 and ?s0.0 = gl_init and window = 1
        and ?r1.0 = "new_Renderer\<lparr>m_framebuffer := ?m, m_resolveFramebuffer := ?r\<rparr>"
        and ?s1.0 = "snd ?i"] h
    by (simp add: gl_init_def)
qed

text \<open>
  Claim C6. When \<open>src\<close> and \<open>dst\<close> differ, every invalidation that \<open>resolveFramebuffer\<close> sends
  names \<open>src\<close> and carries a list that is not empty, that holds \<open>GL_COLOR_ATTACHMENT0\<close>
  exactly when \<open>src\<close> has a color target, \<open>GL_DEPTH_STENCIL_ATTACHMENT\<close> exactly when \<open>src\<close>
  has a depth/stencil target, and nothing else. When \<open>src\<close> has at least one attachment
  the assertion holds, the function returns normally, and its last command is that
  invalidation.
\<close>

theorem resolveFramebuffer_attachment_list:
  assumes "fb_id srcfb \<noteq> fb_id dstfb"
  shows "(\<forall>n as. glInvalidateNamedFramebufferData n as
            \<in> set (drop (length (calls s)) (calls (snd (resolveFramebuffer srcfb dstfb s)))) \<longrightarrow>
          n = fb_id srcfb \<and> as \<noteq> []
          \<and> (GL_COLOR_ATTACHMENT0 \<in> set as \<longleftrightarrow> fb_colorTarget srcfb \<noteq> 0)
          \<and> (GL_DEPTH_STENCIL_ATTACHMENT \<in> set as \<longleftrightarrow> fb_depthStencilTarget srcfb \<noteq> 0)
          \<and> set as \<subseteq> {GL_COLOR_ATTACHMENT0, GL_DEPTH_STENCIL_ATTACHMENT})
     \<and> (fb_colorTarget srcfb \<noteq> 0 \<or> fb_depthStencilTarget srcfb \<noteq> 0 \<longrightarrow>
          fst (resolveFramebuffer srcfb dstfb s) = Inr ()
          \<and> (\<exists>as. as \<noteq> [] \<and> last (calls (snd (resolveFramebuffer srcfb dstfb s)))
                = glInvalidateNamedFramebufferData (fb_id srcfb) as))"
  using assms
  by (auto simp: resolveFramebuffer_def Let_def gl_def gl_call gl_const)

theorem resolveFramebuffer_attachment_list_witness:
  "fb_id \<lparr>fb_id = 1, fb_colorTarget = 1, fb_depthStencilTarget = 2,
          fb_width = 1024, fb_height = 768, fb_samples = 16\<rparr>
     \<noteq> fb_id \<lparr>fb_id = 2, fb_colorTarget = 1, fb_depthStencilTarget = 0,
          fb_width = 1024, fb_height = 768, fb_samples = 0\<rparr>
   \<and> glInvalidateNamedFramebufferData 1 [GL_COLOR_ATTACHMENT0, GL_DEPTH_STENCIL_ATTACHMENT]
       \<in> set (drop (length (calls gl_init)) (calls (snd (resolveFramebuffer
          \<lparr>fb_id = 1, fb_colorTarget = 1, fb_depthStencilTarget = 2,
            fb_width = 1024, fb_height = 768, fb_samples = 16\<rparr>
          \<lparr>fb_id = 2, fb_colorTarget = 1, fb_depthStencilTarget = 0,
            fb_width = 1024, fb_height = 768, fb_samples = 0\<rparr> gl_init))))
   \<and> fst (resolveFramebuffer
          \<lparr>fb_id = 1, fb_colorTarget = 1, fb_depthStencilTarget = 2,
            fb_width = 1024, fb_height = 768, fb_samples = 16\<rparr>
          \<lparr>fb_id = 2, fb_colorTarget = 1, fb_depthStencilTarget = 0,
            fb_width = 1024, fb_height = 768, fb_samples = 0\<rparr> gl_init) = Inr ()"
  using resolveFramebuffer_attachment_list [of
      "\<lparr>fb_id = 1, fb_colorTarget = 1, fb_depthStencilTarget = 2,
        fb_width = 1024, fb_height = 768, fb_samples = 16\<rparr>"
      "\<lparr>fb_id = 2, fb_colorTarget = 1, fb_depthStencilTarget = 0,
        fb_width = 1024, fb_height = 768, fb_samples = 0\<rparr>" gl_init]
  by (simp add: resolveFramebuffer_def Let_def gl_def gl_init_def)

subsection \<open>Linking a program\<close>

text \<open>
  Claim C7. \<open>linkProgram\<close> creates a program, attaches every given stage, links, and then
  detaches and deletes every given stage, whatever the link status is. When the link status
  is \<open>GL_TRUE\<close> it validates the program, and when the validation status is \<open>GL_TRUE\<close> as well
  it returns the program. In every other case it asks for the length of the program log.
  With a positive length it throws a runtime error that carries the log, cut at that
  length. With the length 0, which the backend gives when it has no log, the buffer that it
  allocates is empty, nothing is written to it, and the function reads it as a string,
  beyond its end: no error that carries the log is thrown. With a negative length the
  allocation throws instead. The second statement is the run on a backend that fails to link
  the program of one stage and has no log for it.
\<close>

theorem linkProgram_outcome:
  "(let p = Suc (program_names s);
        c1 = calls s @ [glCreateProgram p] @ map (glAttachShader p) shaders @ [glLinkProgram p]
             @ concat (map (\<lambda>shader. [glDetachShader p shader, glDeleteShader shader]) shaders);
        linked = (glGetProgramiv_answer be c1 p GL_LINK_STATUS = GL_TRUE);
        c2 = c1 @ [glGetProgramiv p GL_LINK_STATUS]
             @ (if linked then [glValidateProgram p] else []);
        valid = (glGetProgramiv_answer be c2 p GL_VALIDATE_STATUS = GL_TRUE);
        c3 = c2 @ (if linked then [glGetProgramiv p GL_VALIDATE_STATUS] else []);
        n = glGetProgramiv_answer be c3 p GL_INFO_LOG_LENGTH;
        c4 = c3 @ [glGetProgramiv p GL_INFO_LOG_LENGTH];
        c5 = c4 @ [glGetProgramInfoLog p n]
    in linkProgram be shaders s =
         (if linked \<and> valid then (Inr p, s\<lparr>calls := c3, program_names := p\<rparr>)
          else if n <s 0 then (Inl bad_array_new_length, s\<lparr>calls := c4, program_names := p\<rparr>)
          else if n = 0 then (Inl out_of_bounds_read, s\<lparr>calls := c5, program_names := p\<rparr>)
          else (Inl (runtime_error (''Program link failed'' @ [CHR 0x0A]
                       @ takeWhile (\<lambda>c. c \<noteq> CHR 0x00)
                           (take (unat n - 1) (glGetProgramInfoLog_answer be c4 p)))),
                s\<lparr>calls := c5, program_names := p\<rparr>)))
   \<and> linkProgram backend_no_log [1] (gl_init\<lparr>program_names := 1\<rparr>) =
       (Inl out_of_bounds_read,
        gl_init\<lparr>calls := [glCreateProgram 2, glAttachShader 2 1, glLinkProgram 2,
             glDetachShader 2 1, glDeleteShader 1, glGetProgramiv 2 GL_LINK_STATUS,
             glGetProgramiv 2 GL_INFO_LOG_LENGTH, glGetProgramInfoLog 2 0],
           program_names := 2\<rparr>)"
proof
  show "let p = Suc (program_names s);
        c1 = calls s @ [glCreateProgram p] @ map (glAttachShader p) shaders @ [glLinkProgram p]
             @ concat (map (\<lambda>shader. [glDetachShader p shader, glDeleteShader shader]) shaders);
        linked = (glGetProgramiv_answer be c1 p GL_LINK_STATUS = GL_TRUE);
        c2 = c1 @ [glGetProgramiv p GL_LINK_STATUS]
             @ (if linked then [glValidateProgram p] else []);
        valid = (glGetProgramiv_answer be c2 p GL_VALIDATE_STATUS = GL_TRUE);
        c3 = c2 @ (if linked then [glGetProgramiv p GL_VALIDATE_STATUS] else []);
        n = glGetProgramiv_answer be c3 p GL_INFO_LOG_LENGTH;
        c4 = c3 @ [glGetProgramiv p GL_INFO_LOG_LENGTH];
        c5 = c4 @ [glGetProgramInfoLog p n]
    in linkProgram be shaders s =
         (if linked \<and> valid then (Inr p, s\<lparr>calls := c3, program_names := p\<rparr>)
          else if n <s 0 then (Inl bad_array_new_length, s\<lparr>calls := c4, program_names := p\<rparr>)
          else if n = 0 then (Inl out_of_bounds_read, s\<lparr>calls := c5, program_names := p\<rparr>)
          else (Inl (runtime_error (''Program link failed'' @ [CHR 0x0A]
                       @ takeWhile (\<lambda>c. c \<noteq> CHR 0x00)
                           (take (unat n - 1) (glGetProgramInfoLog_answer be c4 p)))),
                s\<lparr>calls := c5, program_names := p\<rparr>))"
    by (simp add: linkProgram_def Let_def split_def new_program_def fold_gl fold_calls
        fold_calls2 gl_def read_info_log_def)
  show "linkProgram backend_no_log [1] (gl_init\<lparr>program_names := 1\<rparr>) =
       (Inl out_of_bounds_read,
        gl_init\<lparr>calls := [glCreateProgram 2, glAttachShader 2 1, glLinkProgram 2,
             glDetachShader 2 1, glDeleteShader 1, glGetProgramiv 2 GL_LINK_STATUS,
             glGetProgramiv 2 GL_INFO_LOG_LENGTH, glGetProgramInfoLog 2 0],
           program_names := 2\<rparr>)"
    by (simp add: linkProgram_def Let_def split_def new_program_def gl_def read_info_log_def
        backend_no_log_def backend_ok_def gl_init_def GL_TRUE_def numeral_2_eq_2)
qed

subsection \<open>The specular prefilter stage\<close>

lemma sint_of_nat_cint: "n < 2 ^ 31 \<Longrightarrow> sint (of_nat n :: cint) = int n"
  by (simp add: signed_of_nat signed_take_bit_int_eq_self)

lemma c_div_of_nat:
  assumes "M < 2 ^ 31" "0 < k" "k < 2 ^ 31"
  shows "c_div (of_nat M) (of_nat k) = of_nat (M div k)"
proof -
  have "int M sdiv int k = int M div int k"
    using assms by (simp add: signed_divide_int_def sgn_if)
  moreover have "int M div int k = int (M div k)" by (simp add: zdiv_int)
  ultimately show ?thesis
    using assms by (simp add: c_div_def sint_of_nat_cint)
qed

lemma numGroups_of_nat:
  assumes "M < 2 ^ 31"
  shows "unat (if 1 <s c_div (of_nat M) 32 then c_div (of_nat M) 32 else (1 :: cint)) = max 1 (M div 32)"
proof -
  have d: "c_div (of_nat M) (32 :: cint) = of_nat (M div 32)"
    using c_div_of_nat [OF assms, of 32] by simp
  have "M div 32 \<le> M" by simp
  then have lt: "M div 32 < 2 ^ 31" using assms by linarith
  then have s: "sint (of_nat (M div 32) :: cint) = int (M div 32)" by (rule sint_of_nat_cint)
  have u: "unat (of_nat (M div 32) :: cint) = M div 32"
    using lt by (simp add: unsigned_of_nat take_bit_nat_eq_self)
  show ?thesis using s u by (auto simp: d word_sless_alt)
qed

lemma spmap_levels_log:
  assumes "sint (tex_levels t) = int n" "n < 2147483647"
  shows "L \<le> Suc n \<Longrightarrow> M < 2 ^ 31 \<Longrightarrow>
    spmap_levels p t d (of_nat L) (of_nat M) s =
      (Inr (), s\<lparr>calls := calls s @
         concat (map (\<lambda>k. spmap_pass p t d (L + k) (M div 2 ^ k)) [0..<Suc n - L])\<rparr>)"
proof (induction "Suc n - L" arbitrary: L M s)
  case 0
  then have L: "L = Suc n" by simp
  have "sint (of_nat L :: cint) = int L"
    using L assms by (intro sint_of_nat_cint) simp
  then have "\<not> (of_nat L :: cint) \<le>s tex_levels t"
    using assms L by (simp add: word_sle_eq)
  then show ?case using L by (subst spmap_levels.simps) simp
next
  case (Suc m)
  then have L: "L \<le> n" "m = Suc n - Suc L" by simp_all
  have sL: "sint (of_nat L :: cint) = int L"
    using L assms by (intro sint_of_nat_cint) simp
  have le: "(of_nat L :: cint) \<le>s tex_levels t"
    using L assms sL by (simp add: word_sle_eq)
  have lt: "(of_nat L :: cint) <s 0x7FFFFFFF"
    using L assms sL by (simp add: word_sless_alt)
  have d2: "c_div (of_nat M) (2 :: cint) = of_nat (M div 2)"
    using c_div_of_nat [OF Suc.prems(2), of 2] by simp
  have M2: "M div 2 < 2 ^ 31" using Suc.prems(2) by simp
  let ?s = "s\<lparr>calls := calls s @ spmap_pass p t d L M\<rparr>"
  have upt: "[0..<Suc n - L] = 0 # map Suc [0..<Suc n - Suc L]"
    using L by (metis Suc.hyps(2) upt_conv_Cons map_Suc_upt zero_less_Suc)
  have list: "spmap_pass p t d L M
      @ concat (map (\<lambda>k. spmap_pass p t d (Suc L + k) ((M div 2) div 2 ^ k)) [0..<Suc n - Suc L])
      = concat (map (\<lambda>k. spmap_pass p t d (L + k) (M div 2 ^ k)) [0..<Suc n - L])"
    unfolding upt by (simp add: comp_def div_mult2_eq)
  have step: "spmap_levels p t d (of_nat L) (of_nat M) s
      = spmap_levels p t d (of_nat (Suc L)) (of_nat (M div 2)) ?s"
    using le lt sL d2 numGroups_of_nat [OF Suc.prems(2)]
    by (subst spmap_levels.simps) (simp add: Let_def gl_def spmap_pass_def add.commute)
  have rec: "spmap_levels p t d (of_nat (Suc L)) (of_nat (M div 2)) ?s
      = (Inr (), ?s\<lparr>calls := calls ?s @
         concat (map (\<lambda>k. spmap_pass p t d (Suc L + k) ((M div 2) div 2 ^ k)) [0..<Suc n - Suc L])\<rparr>)"
    using Suc.hyps(1) [of "Suc L" "M div 2" ?s] L M2 by simp
  show ?case
    unfolding step rec using list by simp
qed

lemma dispatches_append [simp]: "dispatches (xs @ ys) = dispatches xs @ dispatches ys"
  by (simp add: dispatches_def)

lemma dispatches_Nil [simp]: "dispatches [] = []"
  by (simp add: dispatches_def)

lemma dispatches_Cons2 [simp]:
  "dispatches (x # y # ys) = dispatches [x] @ dispatches (y # ys)"
  by (simp add: dispatches_def)

lemma dispatches_Cons_append [simp]:
  "dispatches (x # ys @ zs) = dispatches [x] @ dispatches ys @ dispatches zs"
  by (simp add: dispatches_def)

lemma dispatches_simps [simp]:
  "dispatches [glDispatchCompute x y z] = [(x, y, z)]"
  "dispatches [glBindImageTexture u n i b j e e'] = []"
  "dispatches [glProgramUniform1f n m v] = []"
  "dispatches [glUseProgram n] = []"
  "dispatches [glBindTextureUnit u n] = []"
  "dispatches [glDeleteProgram n] = []"
  "dispatches [glCreateTextures e n] = []"
  "dispatches [glTextureStorage2D n i e j k] = []"
  "dispatches [glTextureParameteri n e e'] = []"
  "dispatches [File_readText f] = []"
  "dispatches [printf f] = []"
  "dispatches [glCreateShader e n] = []"
  "dispatches [glShaderSource n f] = []"
  "dispatches [glCompileShader n] = []"
  "dispatches [glGetShaderiv n e] = []"
  "dispatches [glGetShaderInfoLog n i] = []"
  "dispatches [glCreateProgram n] = []"
  "dispatches [glAttachShader n m] = []"
  "dispatches [glLinkProgram n] = []"
  "dispatches [glDetachShader n m] = []"
  "dispatches [glDeleteShader n] = []"
  "dispatches [glGetProgramiv n e] = []"
  "dispatches [glValidateProgram n] = []"
  "dispatches [glGetProgramInfoLog n i] = []"
  by (simp_all add: dispatches_def gl_call)

lemma dispatches_concat: "dispatches (concat xss) = concat (map dispatches xss)"
  by (induction xss) simp_all

lemma dispatches_compileShader:
  "dispatches (calls (snd (compileShader be filename kind s))) = dispatches (calls s)"
  by (simp add: compileShader_def Let_def split_def new_shader_def split: sum.splits)

lemma dispatches_linkProgram:
  "dispatches (calls (snd (linkProgram be [shader] s))) = dispatches (calls s)"
  by (simp add: linkProgram_def Let_def split_def new_program_def split: sum.splits)

lemma dispatches_createTexture:
  "dispatches (calls (snd (createTexture target width height internalformat levels s)))
     = dispatches (calls s)"
  by (simp add: createTexture_def Let_def split_def new_texture_def split: sum.splits)

lemma createTexture_1024:
  "fst (createTexture target 1024 1024 internalformat 0 s) = Inr t \<Longrightarrow> tex_levels t = 11"
  by (auto simp: createTexture_def Let_def split_def new_texture_def mip_levels.simps
      word_sle_eq word_sless_alt split: sum.splits)

lemma spmap_levels_from_0:
  assumes "0 \<le>s tex_levels t" "tex_levels t <s 0x7FFFFFFF"
  shows "spmap_levels p t d 0 1024 s =
      (Inr (), s\<lparr>calls := calls s @
         concat (map (\<lambda>L. spmap_pass p t d L (1024 div 2 ^ L)) [0..<Suc (nat (sint (tex_levels t)))])\<rparr>)"
proof -
  have a: "sint (tex_levels t) = int (nat (sint (tex_levels t)))"
    using assms(1) by (simp add: word_sle_eq)
  have b: "nat (sint (tex_levels t)) < 2147483647"
    using assms by (simp add: word_sless_alt word_sle_eq)
  show ?thesis
    using spmap_levels_log [OF a b, of 0 1024 p d s] by simp
qed

lemma spmap_levels_11:
  "fst (spmap_levels p \<lparr>tex_id = i, tex_width = w, tex_height = h, tex_levels = 11\<rparr> d 0 1024 s)
     = Inr ()"
proof -
  have b: "0 \<le>s tex_levels \<lparr>tex_id = i, tex_width = w, tex_height = h, tex_levels = 11\<rparr>"
    "tex_levels \<lparr>tex_id = i, tex_width = w, tex_height = h, tex_levels = 11\<rparr> <s 0x7FFFFFFF"
    by (simp_all add: word_sle_eq word_sless_alt)
  show ?thesis by (simp add: spmap_levels_from_0 [OF b])
qed

lemma round_half_even_ge: "\<lfloor>q\<rfloor> \<le> round_half_even q"
  by (simp add: round_half_even_def Let_def)

lemma float_round_ge_1:
  assumes "1 \<le> x"
  shows "1 \<le> float_round x"
proof -
  let ?e = "bitlen \<lfloor>x\<rfloor> - 1"
  let ?u = "(2 :: real) powi (?e - 23)"
  have fx: "0 < \<lfloor>x\<rfloor>" using assms by linarith
  then have e0: "0 \<le> ?e" using bitlen_ge_iff_power [of 1 "\<lfloor>x\<rfloor>"] by simp
  have "2 ^ nat ?e \<le> \<lfloor>x\<rfloor>" using bitlen_bounds [OF fx] by simp
  then have "(2 :: real) ^ nat ?e \<le> of_int \<lfloor>x\<rfloor>"
    by (metis of_int_le_iff of_int_numeral of_int_power)
  moreover have "(2 :: real) powi ?e = 2 ^ nat ?e"
    using e0 by (simp add: power_int_def)
  moreover have "of_int \<lfloor>x\<rfloor> \<le> x" by (rule of_int_floor_le)
  ultimately have pe: "(2 :: real) powi ?e \<le> x" by linarith
  have u: "0 < ?u" by simp
  have split: "(2 :: real) powi ?e = 2 ^ 23 * ?u"
    by (simp add: power_int_diff)
  then have "2 ^ 23 \<le> x / ?u"
    using pe u by (simp add: pos_le_divide_eq)
  then have "(2 :: int) ^ 23 \<le> \<lfloor>x / ?u\<rfloor>"
    by (simp add: le_floor_iff)
  then have "(2 :: int) ^ 23 \<le> round_half_even (x / ?u)"
    using round_half_even_ge [of "x / ?u"] by linarith
  then have "(2 :: real) ^ 23 \<le> of_int (round_half_even (x / ?u))"
    by (metis of_int_le_iff of_int_numeral of_int_power)
  then have "2 ^ 23 * ?u \<le> of_int (round_half_even (x / ?u)) * ?u"
    using u by (simp add: mult_right_mono)
  moreover have "(1 :: real) \<le> 2 powi ?e" using e0 by simp
  moreover have "float_round x = of_int (round_half_even (x / ?u)) * ?u"
    using assms by (simp add: float_round_def float_exponent_def Let_def)
  ultimately show ?thesis
    using split by linarith
qed

lemma sint_pred: "0 \<le> sint x \<Longrightarrow> sint (x - 1) = sint x - 1" for x :: cint
  using sint_lt [of x] by (simp add: sint_word_ariths signed_take_bit_int_eq_self)

lemma spmap_deltaRoughness_eq:
  assumes "1 <s tex_levels t"
  shows "spmap_deltaRoughness t = Inr (float_div 1 (float_of_cint (tex_levels t - 1)))"
proof -
  have n: "2 \<le> sint (tex_levels t)" using assms by (simp add: word_sless_alt)
  then have "sint (tex_levels t - 1) = sint (tex_levels t) - 1"
    by (intro sint_pred) simp
  then have "(1 :: real) \<le> of_int (sint (tex_levels t - 1))"
    using n by (simp del: of_int_sint)
  then have "1 \<le> float_of_cint (tex_levels t - 1)"
    unfolding float_of_cint_def by (rule float_round_ge_1)
  then show ?thesis using n by (simp add: spmap_deltaRoughness_def max_def)
qed

lemma spmap_deltaRoughness_11:
  "spmap_deltaRoughness \<lparr>tex_id = i, tex_width = w, tex_height = h, tex_levels = 11\<rparr>
     = Inr (float_div 1 (float_of_cint 10))"
proof -
  have "1 <s tex_levels \<lparr>tex_id = i, tex_width = w, tex_height = h, tex_levels = 11\<rparr>"
    by (simp add: word_sless_alt)
  then show ?thesis using spmap_deltaRoughness_eq by fastforce
qed

lemma setup_spmap_example:
  "fst (setup_spmap backend_ok new_Renderer gl_init) =
     Inr (new_Renderer\<lparr>m_spmapTexture :=
       \<lparr>tex_id = 1, tex_width = 1024, tex_height = 1024, tex_levels = 11\<rparr>\<rparr>)"
  by (simp add: setup_spmap_def compileShader_def linkProgram_def createTexture_def Let_def
      split_def new_shader_def new_program_def new_texture_def new_Texture_def backend_ok_def
      gl_init_def gl_def mip_levels.simps word_sle_eq word_sless_alt spmap_levels_11
      spmap_deltaRoughness_11)

text \<open>
  Claim C2. For a texture with \<open>levels\<close> mip levels (at least 0 and less than the largest
  \<open>int\<close>), the prefilter loop returns normally after exactly \<open>levels + 1\<close> compute
  dispatches, one for each level \<open>L\<close> from 0 to \<open>levels\<close> inclusive, in this order, and the
  dispatch at level \<open>L\<close> has the group counts \<open>max(1, (1024 >> L)/32)\<close>, the same, and 6.
  Whenever the whole stage of \<open>setup\<close> completes, the texture it has made has 11 levels and
  the dispatches of the stage are exactly these, 12 of them.
\<close>

theorem spmap_dispatches:
  "(0 \<le>s tex_levels t \<and> tex_levels t <s 0x7FFFFFFF \<longrightarrow>
      fst (spmap_levels p t d 0 1024 s) = Inr ()
      \<and> dispatches (calls (snd (spmap_levels p t d 0 1024 s))) = dispatches (calls s)
          @ map (\<lambda>L. (max 1 (drop_bit L 1024 div 32), max 1 (drop_bit L 1024 div 32), 6))
              [0..<nat (sint (tex_levels t)) + 1])
   \<and> (setup_spmap be r s = (Inr r', s') \<longrightarrow>
      tex_levels (m_spmapTexture r') = 11
      \<and> dispatches (calls s') = dispatches (calls s)
          @ map (\<lambda>L. (max 1 (drop_bit L 1024 div 32), max 1 (drop_bit L 1024 div 32), 6))
              [0..<nat (sint (tex_levels (m_spmapTexture r'))) + 1])"
proof (intro conjI impI)
  assume "0 \<le>s tex_levels t \<and> tex_levels t <s 0x7FFFFFFF"
  then have l: "0 \<le>s tex_levels t" "tex_levels t <s 0x7FFFFFFF" by simp_all
  show "fst (spmap_levels p t d 0 1024 s) = Inr ()"
    by (simp add: spmap_levels_from_0 [OF l])
  show "dispatches (calls (snd (spmap_levels p t d 0 1024 s))) = dispatches (calls s)
          @ map (\<lambda>L. (max 1 (drop_bit L 1024 div 32), max 1 (drop_bit L 1024 div 32), 6))
              [0..<nat (sint (tex_levels t)) + 1]"
    by (simp add: spmap_levels_from_0 [OF l] dispatches_concat comp_def spmap_pass_def
        drop_bit_eq_div del: upt_Suc)
next
  assume a: "setup_spmap be r s = (Inr r', s')"
  obtain r1 s1 where c: "compileShader be ''shaders/glsl/spmap_cs.glsl'' GL_COMPUTE_SHADER s = (r1, s1)"
    by (cases "compileShader be ''shaders/glsl/spmap_cs.glsl'' GL_COMPUTE_SHADER s")
  then obtain shader where r1: "r1 = Inr shader"
    using a by (cases r1) (simp_all add: setup_spmap_def)
  obtain r2 s2 where l: "linkProgram be [shader] s1 = (r2, s2)"
    by (cases "linkProgram be [shader] s1")
  then obtain p where r2: "r2 = Inr p"
    using a c r1 by (cases r2) (simp_all add: setup_spmap_def)
  obtain r3 s3 where t: "createTexture GL_TEXTURE_CUBE_MAP 1024 1024 GL_RGBA16F 0 s2 = (r3, s3)"
    by (cases "createTexture GL_TEXTURE_CUBE_MAP 1024 1024 GL_RGBA16F 0 s2")
  then obtain tex where r3: "r3 = Inr tex"
    using a c r1 l r2 by (cases r3) (simp_all add: setup_spmap_def)
  have lv: "tex_levels tex = 11"
    using createTexture_1024 [of GL_TEXTURE_CUBE_MAP GL_RGBA16F s2 tex] t r3 by simp
  then have b: "0 \<le>s tex_levels tex" "tex_levels tex <s 0x7FFFFFFF" "1 <s tex_levels tex"
    by (simp_all add: word_sle_eq word_sless_alt)
  let ?d = "float_div 1 (float_of_cint (tex_levels tex - 1))"
  let ?s4 = "gl (glBindTextureUnit 0 (tex_id (m_envTexture r))) (gl (glUseProgram p) s3)"
  note dr = spmap_deltaRoughness_eq [OF b(3)]
  note loop = spmap_levels_from_0 [OF b(1,2), of p ?d ?s4]
  have r': "r' = r\<lparr>m_spmapTexture := tex\<rparr>"
    and s': "s' = gl (glDeleteProgram p) (snd (spmap_levels p tex ?d 0 1024 ?s4))"
    using a c r1 l r2 t r3 dr loop by (simp_all add: setup_spmap_def Let_def)
  have d1: "dispatches (calls s1) = dispatches (calls s)"
    using dispatches_compileShader [of be "''shaders/glsl/spmap_cs.glsl''" GL_COMPUTE_SHADER s] c
    by simp
  have d2: "dispatches (calls s2) = dispatches (calls s1)"
    using dispatches_linkProgram [of be shader s1] l by simp
  have d3: "dispatches (calls s3) = dispatches (calls s2)"
    using dispatches_createTexture [of GL_TEXTURE_CUBE_MAP 1024 1024 GL_RGBA16F 0 s2] t by simp
  show "tex_levels (m_spmapTexture r') = 11"
    using lv r' by simp
  show "dispatches (calls s') = dispatches (calls s)
          @ map (\<lambda>L. (max 1 (drop_bit L 1024 div 32), max 1 (drop_bit L 1024 div 32), 6))
              [0..<nat (sint (tex_levels (m_spmapTexture r'))) + 1]"
    unfolding s' r' loop using d1 d2 d3
    by (simp add: dispatches_concat comp_def spmap_pass_def drop_bit_eq_div del: upt_Suc)
qed


theorem spmap_dispatches_witness:
  "(0 :: cint) \<le>s 11 \<and> (11 :: cint) <s 0x7FFFFFFF
   \<and> dispatches (calls (snd (spmap_levels 2
        \<lparr>tex_id = 1, tex_width = 1024, tex_height = 1024, tex_levels = 11\<rparr> (1 / 10) 0 1024
        gl_init)))
      = [(32, 32, 6), (16, 16, 6), (8, 8, 6), (4, 4, 6), (2, 2, 6), (1, 1, 6), (1, 1, 6),
         (1, 1, 6), (1, 1, 6), (1, 1, 6), (1, 1, 6), (1, 1, 6)]
   \<and> fst (setup_spmap backend_ok new_Renderer gl_init) =
       Inr (new_Renderer\<lparr>m_spmapTexture :=
         \<lparr>tex_id = 1, tex_width = 1024, tex_height = 1024, tex_levels = 11\<rparr>\<rparr>)
   \<and> length (dispatches (calls (snd (setup_spmap backend_ok new_Renderer gl_init)))) = 12"
proof -
  let ?i = "setup_spmap backend_ok new_Renderer gl_init"
  have h: "?i = (Inr (new_Renderer\<lparr>m_spmapTexture :=
         \<lparr>tex_id = 1, tex_width = 1024, tex_height = 1024, tex_levels = 11\<rparr>\<rparr>), snd ?i)"
    using setup_spmap_example by (simp add: prod_eq_iff)
  have u: "[0..<12] = [0, 1, 2, 3, 4, 5, 6, 7, 8, 9, 10, 11 :: nat]"
    by code_simp
  show ?thesis
    using setup_spmap_example
      spmap_dispatches [where t = "\<lparr>tex_id = 1, tex_width = 1024, tex_height = 1024, tex_levels = 11\<rparr>"
        and p = 2 and d = "1 / 10" and s = gl_init and be = backend_ok and r = new_Renderer
        and r' = "new_Renderer\<lparr>m_spmapTexture :=
         \<lparr>tex_id = 1, tex_width = 1024, tex_height = 1024, tex_levels = 11\<rparr>\<rparr>"
        and s' = "snd ?i"] h
    by (simp add: word_sle_eq word_sless_alt gl_init_def u drop_bit_eq_div)
qed

lemma roughness_append [simp]: "roughness (xs @ ys) = roughness xs @ roughness ys"
  by (simp add: roughness_def)

lemma roughness_Nil [simp]: "roughness [] = []"
  by (simp add: roughness_def)

lemma roughness_Cons2 [simp]:
  "roughness (x # y # ys) = roughness [x] @ roughness (y # ys)"
  by (simp add: roughness_def)

lemma roughness_Cons_append [simp]:
  "roughness (x # ys @ zs) = roughness [x] @ roughness ys @ roughness zs"
  by (simp add: roughness_def)

lemma roughness_simps [simp]:
  "roughness [glProgramUniform1f n m v] = [v]"
  "roughness [glDispatchCompute x y z] = []"
  "roughness [glBindImageTexture u n i b j e e'] = []"
  "roughness [glUseProgram n] = []"
  "roughness [glBindTextureUnit u n] = []"
  "roughness [glDeleteProgram n] = []"
  "roughness [glCreateTextures e n] = []"
  "roughness [glTextureStorage2D n i e j k] = []"
  "roughness [glTextureParameteri n e e'] = []"
  "roughness [File_readText f] = []"
  "roughness [printf f] = []"
  "roughness [glCreateShader e n] = []"
  "roughness [glShaderSource n f] = []"
  "roughness [glCompileShader n] = []"
  "roughness [glGetShaderiv n e] = []"
  "roughness [glGetShaderInfoLog n i] = []"
  "roughness [glCreateProgram n] = []"
  "roughness [glAttachShader n m] = []"
  "roughness [glLinkProgram n] = []"
  "roughness [glDetachShader n m] = []"
  "roughness [glDeleteShader n] = []"
  "roughness [glGetProgramiv n e] = []"
  "roughness [glValidateProgram n] = []"
  "roughness [glGetProgramInfoLog n i] = []"
  by (simp_all add: roughness_def gl_call)













subsection \<open>One frame\<close>

text \<open>
  Claim C9. Take a renderer whose two framebuffers are the ones that \<open>initialize\<close> made, for
  any size, any number of samples and any backend. For every \<open>ViewSettings\<close> value, every
  window and every state of the backend, \<open>render\<close> returns normally after sending exactly
  this sequence: the three uniforms computed from the view; the binding of the main
  framebuffer and a clear whose mask is \<open>GL_DEPTH_BUFFER_BIT\<close>, which has no bit in common
  with \<open>GL_COLOR_BUFFER_BIT\<close>; the skybox draw after disabling the depth test; the model
  draw after enabling the depth test and binding seven textures to the units 0 to 6; the
  resolve (a blit and an invalidation when \<open>samples > 0\<close>, nothing otherwise); the tonemap
  draw of four vertices as a triangle strip to framebuffer 0; the presentation. Only the
  payload of the three uniforms depends on the view.
\<close>

theorem render_passes:
  assumes "initialize be r0 width height samples s0 = (Inr (w0, r1), s1)"
    and "m_framebuffer r = m_framebuffer r1"
    and "m_resolveFramebuffer r = m_resolveFramebuffer r1"
  shows "render r window view s =
    (Inr (), s\<lparr>calls := calls s @
       [glProgramUniformMatrix4fv (m_skyboxProgram r) ViewProjectionMatrix
          (Proj_times_Rotation view (fb_width (m_framebuffer r)) (fb_height (m_framebuffer r))),
        glProgramUniformMatrix4fv (m_pbrProgram r) ViewProjectionMatrix
          (Proj_times_View view (fb_width (m_framebuffer r)) (fb_height (m_framebuffer r))),
        glProgramUniform3fv (m_pbrProgram r) EyePosition (Eye_Position view),
        glBindFramebuffer GL_FRAMEBUFFER (fb_id (m_framebuffer r)),
        glClear GL_DEPTH_BUFFER_BIT,
        glDisable GL_DEPTH_TEST,
        glUseProgram (m_skyboxProgram r),
        glBindTextureUnit 0 (tex_id (m_envTexture r)),
        glBindVertexArray (vb_vao (m_skybox r)),
        glDrawElements GL_TRIANGLES (vb_numElements (m_skybox r)) GL_UNSIGNED_INT 0,
        glEnable GL_DEPTH_TEST,
        glUseProgram (m_pbrProgram r),
        glBindTextureUnit 0 (tex_id (m_albedoTexture r)),
        glBindTextureUnit 1 (tex_id (m_normalTexture r)),
        glBindTextureUnit 2 (tex_id (m_metalnessTexture r)),
        glBindTextureUnit 3 (tex_id (m_roughnessTexture r)),
        glBindTextureUnit 4 (tex_id (m_irmapTexture r)),
        glBindTextureUnit 5 (tex_id (m_spmapTexture r)),
        glBindTextureUnit 6 (tex_id (m_spBRDF_LUT r)),
        glBindVertexArray (vb_vao (m_pbrModel r)),
        glDrawElements GL_TRIANGLES (vb_numElements (m_pbrModel r)) GL_UNSIGNED_INT 0]
       @ (if 0 <s samples then
            [glBlitNamedFramebuffer (fb_id (m_framebuffer r)) (fb_id (m_resolveFramebuffer r))
               [0, 0, fb_width (m_framebuffer r) - 1, fb_height (m_framebuffer r) - 1]
               [0, 0, fb_width (m_resolveFramebuffer r) - 1, fb_height (m_resolveFramebuffer r) - 1]
               GL_COLOR_BUFFER_BIT GL_NEAREST,
             glInvalidateNamedFramebufferData (fb_id (m_framebuffer r))
               [GL_COLOR_ATTACHMENT0, GL_DEPTH_STENCIL_ATTACHMENT]]
          else [])
       @ [glBindFramebuffer GL_FRAMEBUFFER 0,
          glUseProgram (m_tonemapProgram r),
          glBindTextureUnit 0 (fb_colorTarget (m_resolveFramebuffer r)),
          glBindVertexArray (vb_vao (m_screenQuad r)),
          glDrawArrays GL_TRIANGLE_STRIP 0 4,
          glfwSwapBuffers window]\<rparr>)
    \<and> GL_DEPTH_BUFFER_BIT AND GL_COLOR_BUFFER_BIT = 0"
proof -
  note i = initialize_framebuffers [OF assms(1)]
  have m: "GL_DEPTH_BUFFER_BIT AND GL_COLOR_BUFFER_BIT = 0"
    by (simp add: GL_DEPTH_BUFFER_BIT_def GL_COLOR_BUFFER_BIT_def)
  show ?thesis
  proof (cases "0 <s samples")
    case True
    then show ?thesis using i assms(2,3) m
      by (simp add: render_def Let_def resolveFramebuffer_def gl_def)
  next
    case False
    then show ?thesis using i assms(2,3) m
      by (simp add: render_def Let_def resolveFramebuffer_def gl_def)
  qed
qed


theorem render_passes_witness:
  "fst (initialize backend_ok new_Renderer 1024 768 16 gl_init) =
     Inr (1, new_Renderer
       \<lparr>m_framebuffer := \<lparr>fb_id = 1, fb_colorTarget = 1, fb_depthStencilTarget = 2,
            fb_width = 1024, fb_height = 768, fb_samples = 16\<rparr>,
        m_resolveFramebuffer := \<lparr>fb_id = 2, fb_colorTarget = 1, fb_depthStencilTarget = 0,
            fb_width = 1024, fb_height = 768, fb_samples = 0\<rparr>\<rparr>)
   \<and> fst (render (new_Renderer
       \<lparr>m_framebuffer := \<lparr>fb_id = 1, fb_colorTarget = 1, fb_depthStencilTarget = 2,
            fb_width = 1024, fb_height = 768, fb_samples = 16\<rparr>,
        m_resolveFramebuffer := \<lparr>fb_id = 2, fb_colorTarget = 1, fb_depthStencilTarget = 0,
            fb_width = 1024, fb_height = 768, fb_samples = 0\<rparr>\<rparr>) 1
       \<lparr>pitch = 0, yaw = 0, distance = 150, fov = 45\<rparr> gl_init) = Inr ()
   \<and> map call_name (calls (snd (render (new_Renderer
       \<lparr>m_framebuffer := \<lparr>fb_id = 1, fb_colorTarget = 1, fb_depthStencilTarget = 2,
            fb_width = 1024, fb_height = 768, fb_samples = 16\<rparr>,
        m_resolveFramebuffer := \<lparr>fb_id = 2, fb_colorTarget = 1, fb_depthStencilTarget = 0,
            fb_width = 1024, fb_height = 768, fb_samples = 0\<rparr>\<rparr>) 1
       \<lparr>pitch = 0, yaw = 0, distance = 150, fov = 45\<rparr> gl_init))) =
     [''glProgramUniformMatrix4fv'', ''glProgramUniformMatrix4fv'', ''glProgramUniform3fv'',
      ''glBindFramebuffer'', ''glClear'',
      ''glDisable'', ''glUseProgram'', ''glBindTextureUnit'', ''glBindVertexArray'',
      ''glDrawElements'',
      ''glEnable'', ''glUseProgram'', ''glBindTextureUnit'', ''glBindTextureUnit'',
      ''glBindTextureUnit'', ''glBindTextureUnit'', ''glBindTextureUnit'', ''glBindTextureUnit'',
      ''glBindTextureUnit'', ''glBindVertexArray'', ''glDrawElements'',
      ''glBlitNamedFramebuffer'', ''glInvalidateNamedFramebufferData'',
      ''glBindFramebuffer'', ''glUseProgram'', ''glBindTextureUnit'', ''glBindVertexArray'',
      ''glDrawArrays'', ''glfwSwapBuffers'']"
proof -
  let ?i = "initialize backend_ok new_Renderer 1024 768 16 gl_init"
  have h: "?i = (Inr (1, new_Renderer
       \<lparr>m_framebuffer := \<lparr>fb_id = 1, fb_colorTarget = 1, fb_depthStencilTarget = 2,
            fb_width = 1024, fb_height = 768, fb_samples = 16\<rparr>,
        m_resolveFramebuffer := \<lparr>fb_id = 2, fb_colorTarget = 1, fb_depthStencilTarget = 0,
            fb_width = 1024, fb_height = 768, fb_samples = 0\<rparr>\<rparr>), snd ?i)"
    using initialize_example_16 by (simp add: prod_eq_iff)
  show ?thesis
    using initialize_example_16 render_passes [OF h refl refl, of 1
      "\<lparr>pitch = 0, yaw = 0, distance = 150, fov = 45\<rparr>" gl_init]
    by (simp add: gl_init_def word_sless_alt call_name_def gl_call)
qed


subsection \<open>Creating and deleting the framebuffers of the renderer\<close>

text \<open>
  Claim C10. When \<open>initialize\<close> is called with \<open>samples = 0\<close> and succeeds, the resolve
  framebuffer is the same record as the main framebuffer and exactly one framebuffer object
  has been created. For any number of samples, a shutdown of a renderer that holds the two
  framebuffers of \<open>initialize\<close> deletes exactly the framebuffer objects that \<open>initialize\<close>
  created, each of them once: the resolve framebuffer when its identifier differs from
  that of the main framebuffer, and then the main framebuffer.
\<close>

theorem framebuffers_deleted_once:
  assumes "initialize be r0 width height samples s0 = (Inr (window, r1), s1)"
    and "m_framebuffer r = m_framebuffer r1"
    and "m_resolveFramebuffer r = m_resolveFramebuffer r1"
  shows "(samples = 0 \<longrightarrow> m_resolveFramebuffer r1 = m_framebuffer r1
            \<and> created_framebuffers (calls s1)
                = created_framebuffers (calls s0) @ [fb_id (m_framebuffer r1)])
    \<and> (\<exists>created deleted.
          created_framebuffers (calls s1) = created_framebuffers (calls s0) @ created
        \<and> deleted_framebuffers (calls (snd (shutdown r s))) = deleted_framebuffers (calls s) @ deleted
        \<and> distinct created \<and> distinct deleted \<and> set deleted = set created)
    \<and> deleted_framebuffers (calls (snd (shutdown r s))) = deleted_framebuffers (calls s)
        @ (if fb_id (m_framebuffer r) \<noteq> fb_id (m_resolveFramebuffer r)
           then [fb_id (m_resolveFramebuffer r)] else [])
        @ [fb_id (m_framebuffer r)]"
proof -
  note i = initialize_framebuffers [OF assms(1)]
  show ?thesis
  proof (cases "0 <s samples")
    case True
    then show ?thesis using i assms(2,3)
      by (auto simp: shutdown_deleted word_sless_alt)
  next
    case False
    then show ?thesis using i assms(2,3)
      by (auto simp: shutdown_deleted)
  qed
qed


theorem framebuffers_deleted_once_witness:
  "fst (initialize backend_ok new_Renderer 1024 768 0 gl_init) =
     Inr (1, new_Renderer
       \<lparr>m_framebuffer := \<lparr>fb_id = 1, fb_colorTarget = 1, fb_depthStencilTarget = 1,
            fb_width = 1024, fb_height = 768, fb_samples = 0\<rparr>,
        m_resolveFramebuffer := \<lparr>fb_id = 1, fb_colorTarget = 1, fb_depthStencilTarget = 1,
            fb_width = 1024, fb_height = 768, fb_samples = 0\<rparr>\<rparr>)
   \<and> created_framebuffers (calls (snd (initialize backend_ok new_Renderer 1024 768 0 gl_init)))
       = [1]
   \<and> distinct (deleted_framebuffers (calls (snd (shutdown (new_Renderer
       \<lparr>m_framebuffer := \<lparr>fb_id = 1, fb_colorTarget = 1, fb_depthStencilTarget = 1,
            fb_width = 1024, fb_height = 768, fb_samples = 0\<rparr>,
        m_resolveFramebuffer := \<lparr>fb_id = 1, fb_colorTarget = 1, fb_depthStencilTarget = 1,
            fb_width = 1024, fb_height = 768, fb_samples = 0\<rparr>\<rparr>) gl_init))))
   \<and> set (deleted_framebuffers (calls (snd (shutdown (new_Renderer
       \<lparr>m_framebuffer := \<lparr>fb_id = 1, fb_colorTarget = 1, fb_depthStencilTarget = 1,
            fb_width = 1024, fb_height = 768, fb_samples = 0\<rparr>,
        m_resolveFramebuffer := \<lparr>fb_id = 1, fb_colorTarget = 1, fb_depthStencilTarget = 1,
            fb_width = 1024, fb_height = 768, fb_samples = 0\<rparr>\<rparr>) gl_init))))
       = {1}"
proof -
  let ?i = "initialize backend_ok new_Renderer 1024 768 0 gl_init"
  have h: "?i = (Inr (1, new_Renderer
       \<lparr>m_framebuffer := \<lparr>fb_id = 1, fb_colorTarget = 1, fb_depthStencilTarget = 1,
            fb_width = 1024, fb_height = 768, fb_samples = 0\<rparr>,
        m_resolveFramebuffer := \<lparr>fb_id = 1, fb_colorTarget = 1, fb_depthStencilTarget = 1,
            fb_width = 1024, fb_height = 768, fb_samples = 0\<rparr>\<rparr>), snd ?i)"
    using initialize_example_0 by (simp add: prod_eq_iff)
  show ?thesis
    using initialize_example_0 framebuffers_deleted_once [OF h refl refl, of gl_init]
    by (auto simp: gl_init_def)
qed


subsection \<open>Deleted handles\<close>

text \<open>
  Claim C8. After \<open>deleteTexture\<close>, \<open>deleteFrameBuffer\<close> and \<open>deleteVertexBuffer\<close> the
  record that was passed is all zero: every backend identifier and every other field of
  the handle is 0, whatever the handle held before and whatever the backend's state was.
\<close>

theorem delete_zeroes_handle:
  "tex_id (fst (deleteTexture t s)) = 0 \<and> tex_width (fst (deleteTexture t s)) = 0
   \<and> tex_height (fst (deleteTexture t s)) = 0 \<and> tex_levels (fst (deleteTexture t s)) = 0
   \<and> fb_id (fst (deleteFrameBuffer fb s)) = 0 \<and> fb_colorTarget (fst (deleteFrameBuffer fb s)) = 0
   \<and> fb_depthStencilTarget (fst (deleteFrameBuffer fb s)) = 0
   \<and> fb_width (fst (deleteFrameBuffer fb s)) = 0 \<and> fb_height (fst (deleteFrameBuffer fb s)) = 0
   \<and> fb_samples (fst (deleteFrameBuffer fb s)) = 0
   \<and> vb_vao (fst (deleteVertexBuffer b s)) = 0 \<and> vb_vbo (fst (deleteVertexBuffer b s)) = 0
   \<and> vb_ibo (fst (deleteVertexBuffer b s)) = 0 \<and> vb_numElements (fst (deleteVertexBuffer b s)) = 0"
  by (simp add: deleteTexture_def deleteFrameBuffer_def deleteVertexBuffer_def Let_def
      memset_Texture_def memset_FrameBuffer_def memset_VertexBuffer_def)

end
